theory Spec2Isabelle
  imports Complex_Main
begin

section \<open>JavaScript values\<close>

text \<open>
  A JavaScript number is modelled as a real: the finite doubles, with rounding left out.
  \<open>NaN\<close> and the infinities are outside the model, so a division by zero (which the
  source reaches only through an activation threshold equal to the particle's whole life,
  or a hook that sets a time to live to 0) is not covered by any statement below. A property that is absent (\<open>undefined\<close>)
  and a field holding \<open>null\<close> are both \<open>None\<close>; an options object that spells out
  \<open>null\<close> for a property is outside the model.
\<close>

datatype error = Error string | TypeError

definition sum_bind :: "error + 'a \<Rightarrow> ('a \<Rightarrow> error + 'b) \<Rightarrow> error + 'b" where
  "sum_bind m f = (case m of Inl e \<Rightarrow> Inl e | Inr v \<Rightarrow> f v)"

definition truthy :: "real \<Rightarrow> bool" where
  "truthy v = (v \<noteq> 0)"

text \<open>\<open>a || b\<close> on two numbers.\<close>

definition js_or :: "real \<Rightarrow> real \<Rightarrow> real" where
  "js_or a b = (if truthy a then a else b)"

text \<open>\<open>a || b\<close> where \<open>a\<close> may be undefined or null and \<open>b\<close> is a number.\<close>

definition opt_or :: "real option \<Rightarrow> real \<Rightarrow> real" where
  "opt_or a b = (case a of None \<Rightarrow> b | Some v \<Rightarrow> js_or v b)"

text \<open>\<open>a || b\<close> where both may be undefined or null.\<close>

definition opt_or_opt :: "real option \<Rightarrow> real option \<Rightarrow> real option" where
  "opt_or_opt a b = (case a of None \<Rightarrow> b | Some v \<Rightarrow> if truthy v then Some v else b)"

text \<open>The truthiness of a possibly missing number: \<open>if (x)\<close>.\<close>

definition opt_truthy :: "real option \<Rightarrow> bool" where
  "opt_truthy a = (case a of None \<Rightarrow> False | Some v \<Rightarrow> truthy v)"

text \<open>\<open>ToNumber\<close>: \<open>null\<close> in arithmetic, or stored into a typed array, is \<open>0\<close>.\<close>

definition ToNumber :: "real option \<Rightarrow> real" where
  "ToNumber a = (case a of None \<Rightarrow> 0 | Some v \<Rightarrow> v)"

subsection \<open>The random source\<close>

text \<open>
  \<open>Math.random()\<close> reads a global generator. The generator is the stream of the numbers
  it will return; a call takes the head.
\<close>

type_synonym rng = "nat \<Rightarrow> real"

definition Math_random :: "rng \<Rightarrow> real \<times> rng" where
  "Math_random g = (g 0, \<lambda>n. g (Suc n))"

text \<open>Every number \<open>Math.random()\<close> returns lies in \<open>[0, 1)\<close>.\<close>

definition unit_rng :: "rng \<Rightarrow> bool" where
  "unit_rng g = (\<forall>n. 0 \<le> g n \<and> g n < 1)"

subsection \<open>three.js vectors and colours\<close>

text \<open>
  \<open>THREE.Vector3\<close> and \<open>THREE.Color\<close> belong to the three.js library, not to this
  repository; the methods the source calls are written out from their documented
  behaviour. The source mutates a target object and returns it; every such target is
  either a field of the particle itself or a module-level scratch object (\<open>TMP1\<close>,
  \<open>TMP2\<close>, \<open>TMP_COLOR\<close>) that is filled by a component-wise \<open>set\<close>/\<open>copy\<close> and consumed
  before the next statement, so the model computes with values.
\<close>

datatype vec3 = Vector3 (vx: real) (vy: real) (vz: real)

definition v_add :: "vec3 \<Rightarrow> vec3 \<Rightarrow> vec3" where
  "v_add a b = Vector3 (vx a + vx b) (vy a + vy b) (vz a + vz b)"

definition v_sub :: "vec3 \<Rightarrow> vec3 \<Rightarrow> vec3" where
  "v_sub a b = Vector3 (vx a - vx b) (vy a - vy b) (vz a - vz b)"

definition v_multiply :: "vec3 \<Rightarrow> vec3 \<Rightarrow> vec3" where
  "v_multiply a b = Vector3 (vx a * vx b) (vy a * vy b) (vz a * vz b)"

definition v_multiplyScalar :: "vec3 \<Rightarrow> real \<Rightarrow> vec3" where
  "v_multiplyScalar a k = Vector3 (vx a * k) (vy a * k) (vz a * k)"

definition v_clamp :: "vec3 \<Rightarrow> vec3 \<Rightarrow> vec3 \<Rightarrow> vec3" where
  "v_clamp a lo hi =
     Vector3 (max (vx lo) (min (vx hi) (vx a)))
             (max (vy lo) (min (vy hi) (vy a)))
             (max (vz lo) (min (vz hi) (vz a)))"

definition v_length :: "vec3 \<Rightarrow> real" where
  "v_length a = sqrt (vx a * vx a + vy a * vy a + vz a * vz a)"

text \<open>\<open>normalize()\<close> is \<open>divideScalar(length() || 1)\<close>.\<close>

definition v_normalize :: "vec3 \<Rightarrow> vec3" where
  "v_normalize a = v_multiplyScalar a (1 / js_or (v_length a) 1)"

datatype color = Color (cr: real) (cg: real) (cb: real)

text \<open>\<open>a.lerp(b, t)\<close>: each channel moves by \<open>(b - a) * t\<close>.\<close>

definition c_lerp :: "color \<Rightarrow> color \<Rightarrow> real \<Rightarrow> color" where
  "c_lerp a b t =
     Color (cr a + (cr b - cr a) * t) (cg a + (cg b - cg a) * t) (cb a + (cb b - cb a) * t)"

section \<open>Utils\<close>

definition getRandomBetween :: "real \<Rightarrow> real \<Rightarrow> rng \<Rightarrow> real \<times> rng" where
  "getRandomBetween mn mx g = (case Math_random g of (u, g') \<Rightarrow> (u * (mx - mn) + mn, g'))"

definition getRandomWithSpread :: "real \<Rightarrow> real option \<Rightarrow> rng \<Rightarrow> real \<times> rng" where
  "getRandomWithSpread baseVal extraRandom g =
     (if \<not> opt_truthy extraRandom then (baseVal, g)
      else getRandomBetween baseVal (baseVal + ToNumber extraRandom) g)"

text \<open>
  The randomizers always pass both bounds (their constructors fill in defaults), so the
  \<open>!colMax\<close> and \<open>!vecMax\<close> branches are not reachable from them and the bounds are plain
  values here. The three draws happen in argument order.
\<close>

definition getRandomColorBetween :: "color \<Rightarrow> color \<Rightarrow> rng \<Rightarrow> color \<times> rng" where
  "getRandomColorBetween colMin colMax g0 =
     (case getRandomBetween (cr colMin) (cr colMax) g0 of (r, g1) \<Rightarrow>
      case getRandomBetween (cg colMin) (cg colMax) g1 of (gr, g2) \<Rightarrow>
      case getRandomBetween (cb colMin) (cb colMax) g2 of (b, g3) \<Rightarrow>
        (Color r gr b, g3))"

definition getRandomVectorBetween :: "vec3 \<Rightarrow> vec3 \<Rightarrow> rng \<Rightarrow> vec3 \<times> rng" where
  "getRandomVectorBetween vecMin vecMax g0 =
     (case getRandomBetween (vx vecMin) (vx vecMax) g0 of (x, g1) \<Rightarrow>
      case getRandomBetween (vy vecMin) (vy vecMax) g1 of (y, g2) \<Rightarrow>
      case getRandomBetween (vz vecMin) (vz vecMax) g2 of (z, g3) \<Rightarrow>
        (Vector3 x y z, g3))"

definition lerpColors :: "color \<Rightarrow> color \<Rightarrow> real \<Rightarrow> color" where
  "lerpColors colA colB t = c_lerp colA colB t"

definition lerp :: "real \<Rightarrow> real \<Rightarrow> real \<Rightarrow> real" where
  "lerp a b t = a * (1 - t) + b * t"

section \<open>Randomizers\<close>

text \<open>
  A value-like option is a constant or a randomizer object (one with a \<open>generate\<close>
  method). The repository has one randomizer for numbers, two for vectors and one for
  colours.
\<close>

datatype num_src = Num real | MinMaxRandomizer real real

datatype vec_src =
    Vec vec3
  | BoxRandomizer vec3 vec3
  | SphereRandomizer real real "vec3 option" "vec3 option" "vec3 option"

datatype col_src = Col color | ColorsRandomizer color color

definition randMinusToOne :: "rng \<Rightarrow> real \<times> rng" where
  "randMinusToOne g = (case Math_random g of (u, g') \<Rightarrow> (u * 2 - 1, g'))"

text \<open>
  \<open>SphereRandomizer maxRadius minRadius scaler minVector maxVector\<close>, the radii after the
  constructor's defaults (\<open>maxRadius || 1\<close>, \<open>minRadius || 0\<close>).
\<close>

definition sphere_generate ::
  "real \<Rightarrow> real \<Rightarrow> vec3 option \<Rightarrow> vec3 option \<Rightarrow> vec3 option \<Rightarrow> rng \<Rightarrow> vec3 \<times> rng" where
  "sphere_generate maxRadius minRadius scaler minVector maxVector g0 =
     (case randMinusToOne g0 of (x, g1) \<Rightarrow>
      case randMinusToOne g1 of (y, g2) \<Rightarrow>
      case randMinusToOne g2 of (z, g3) \<Rightarrow>
      let t0 = Vector3 x y z;
          t1 = (if minVector \<noteq> None \<or> maxVector \<noteq> None
                then v_clamp t0
                       (case minVector of None \<Rightarrow> Vector3 (-1) (-1) (-1) | Some m \<Rightarrow> m)
                       (case maxVector of None \<Rightarrow> Vector3 1 1 1 | Some m \<Rightarrow> m)
                else t0)
      in case getRandomBetween minRadius maxRadius g3 of (rad, g4) \<Rightarrow>
         let t2 = v_multiplyScalar (v_normalize t1) rad
         in (case scaler of None \<Rightarrow> t2 | Some s \<Rightarrow> v_multiply t2 s, g4))"

fun vec_generate :: "vec_src \<Rightarrow> rng \<Rightarrow> vec3 \<times> rng" where
  "vec_generate (Vec v) g = (v, g)"
| "vec_generate (BoxRandomizer mn mx) g = getRandomVectorBetween mn mx g"
| "vec_generate (SphereRandomizer maxRadius minRadius scaler minVector maxVector) g =
     sphere_generate maxRadius minRadius scaler minVector maxVector g"

fun col_generate :: "col_src \<Rightarrow> rng \<Rightarrow> color \<times> rng" where
  "col_generate (Col c) g = (c, g)"
| "col_generate (ColorsRandomizer mn mx) g = getRandomColorBetween mn mx g"

text \<open>\<open>Utils.randomizerOrValue\<close>: \<open>(val.generate ? val.generate() : val) || 0\<close>.\<close>

fun randomizerOrValue :: "num_src \<Rightarrow> rng \<Rightarrow> real \<times> rng" where
  "randomizerOrValue (Num v) g = (js_or v 0, g)"
| "randomizerOrValue (MinMaxRandomizer mn mx) g =
     (case getRandomBetween mn mx g of (v, g') \<Rightarrow> (js_or v 0, g'))"

text \<open>
  \<open>getConstOrRandomVector(target, constValOrRandomizer, returnNullIfUndefined)\<close>. The
  result does not depend on what the target held before.
\<close>

definition getConstOrRandomVector :: "vec_src option \<Rightarrow> bool \<Rightarrow> rng \<Rightarrow> vec3 option \<times> rng" where
  "getConstOrRandomVector constValOrRandomizer returnNullIfUndefined g =
     (case constValOrRandomizer of
        None \<Rightarrow> (if returnNullIfUndefined then None else Some (Vector3 0 0 0), g)
      | Some src \<Rightarrow> (case vec_generate src g of (v, g') \<Rightarrow> (Some v, g')))"

definition getConstOrRandomColor :: "col_src option \<Rightarrow> rng \<Rightarrow> color \<times> rng" where
  "getConstOrRandomColor constValOrRandomizer g =
     (case constValOrRandomizer of
        None \<Rightarrow> (Color 1 1 1, g)
      | Some src \<Rightarrow> col_generate src g)"

section \<open>Particle\<close>

text \<open>
  The fields of a \<open>Particle\<close> object, from \<open>Particle.reset\<close>. The \<open>system\<close> back
  reference is passed to the methods as the part of the system they read (its particle
  options, its world position); the \<open>onUpdate\<close> field is a copy of
  \<open>options.onUpdate\<close> taken at every reset and is read from the options.

  Several objects of the source have fields of the same name, so a field carries a prefix
  for its object: \<open>p_\<close> a particle, \<open>o_\<close> the particle options, \<open>e_\<close> an emitter,
  \<open>eo_\<close> the options of an emitter, \<open>s_\<close> a system, \<open>so_\<close> the system options.
\<close>

record particle =
  p_age :: real
  p_finished :: bool
  p_gravityX :: "real option"
  p_gravityY :: "real option"
  p_gravityZ :: "real option"
  p_velocity :: "vec3 option"
  p_acceleration :: "vec3 option"
  p_position :: vec3
  p_ttl :: real
  p_alpha :: "real option"
  p_startAlpha :: "real option"
  p_endAlpha :: "real option"
  p_startAlphaChangeAt :: real
  p_colorize :: bool
  p_color :: "color option"
  p_startColor :: "color option"
  p_endColor :: "color option"
  p_startColorChangeAt :: real
  p_size :: "real option"
  p_startSize :: "real option"
  p_endSize :: "real option"
  p_startSizeChangeAt :: real
  p_rotation :: "real option"
  p_rotationSpeed :: "real option"
  p_startWorldPosition :: "vec3 option"

text \<open>
  \<open>options.particles\<close>. The four flags \<open>fade\<close>, \<open>rotating\<close>, \<open>colorize\<close> and
  \<open>scaling\<close>, and \<open>globalSize\<close> and \<open>globalColor\<close>, are written by the system's
  constructor. A hook receives the particle and may assign to its fields; it is a function
  from the particle to the particle it leaves behind. Blending and texture only reach the
  material and are left out.
\<close>

record particle_options =
  o_ttl :: "real option"
  o_ttlExtra :: "real option"
  o_alpha :: "num_src option"
  o_startAlpha :: "num_src option"
  o_endAlpha :: "num_src option"
  o_startAlphaChangeAt :: "real option"
  o_size :: "num_src option"
  o_startSize :: "num_src option"
  o_endSize :: "num_src option"
  o_startSizeChangeAt :: "real option"
  o_color :: "col_src option"
  o_startColor :: "col_src option"
  o_endColor :: "col_src option"
  o_startColorChangeAt :: "real option"
  o_acceleration :: "vec_src option"
  o_gravity :: "real option"
  o_gravityX :: "real option"
  o_gravityY :: "real option"
  o_gravityZ :: "real option"
  o_rotation :: "num_src option"
  o_rotationSpeed :: "num_src option"
  o_velocity :: "vec_src option"
  o_velocityBonus :: "vec3 option"
  o_offset :: "vec_src option"
  o_worldPosition :: bool
  o_globalSize :: "real option"
  o_globalColor :: "color option"
  o_onUpdate :: "(particle \<Rightarrow> particle) option"
  o_onSpawn :: "(particle \<Rightarrow> particle) option"
  o_fade :: bool
  o_rotating :: bool
  o_colorize :: bool
  o_scaling :: bool

definition run_hook :: "('a \<Rightarrow> 'a) option \<Rightarrow> 'a \<Rightarrow> 'a" where
  "run_hook h v = (case h of None \<Rightarrow> v | Some f \<Rightarrow> f v)"

subsection \<open>reset\<close>

text \<open>
  The constant-or-animated triple of alpha and of size: \<open>(constant, start, end)\<close>.
  \<open>Utils.randomizerOrValue(undefined)\<close> reads \<open>undefined.generate\<close> and raises a
  TypeError.
\<close>

definition reset_triple ::
  "bool \<Rightarrow> num_src option \<Rightarrow> num_src option \<Rightarrow> num_src option \<Rightarrow> rng \<Rightarrow>
     error + ((real option \<times> real option \<times> real option) \<times> rng)" where
  "reset_triple flag constant start fin g0 =
     (if flag then
        (case constant of
           Some c \<Rightarrow> (case randomizerOrValue c g0 of (v, g1) \<Rightarrow> Inr ((Some v, None, None), g1))
         | None \<Rightarrow>
            (case start of
               None \<Rightarrow> Inl TypeError
             | Some s \<Rightarrow>
                (case randomizerOrValue s g0 of (sv, g1) \<Rightarrow>
                   (case fin of
                      None \<Rightarrow> Inl TypeError
                    | Some e \<Rightarrow>
                       (case randomizerOrValue e g1 of (ev, g2) \<Rightarrow>
                          Inr ((None, Some sv, Some ev), g2))))))
      else Inr ((None, None, None), g0))"

definition reset_colors ::
  "particle_options \<Rightarrow> rng \<Rightarrow> (color option \<times> color option \<times> color option) \<times> rng" where
  "reset_colors options g0 =
     (if o_colorize options then
        (if o_color options \<noteq> None then
           (case getConstOrRandomColor (o_color options) g0 of (c, g1) \<Rightarrow>
              ((Some c, None, None), g1))
         else
           (case getConstOrRandomColor (o_startColor options) g0 of (sc, g1) \<Rightarrow>
            case getConstOrRandomColor (o_endColor options) g1 of (ec, g2) \<Rightarrow>
              ((None, Some sc, Some ec), g2)))
      else ((None, None, None), g0))"

text \<open>\<open>options.rotation || 0\<close>: a missing option and the number 0 both give 0.\<close>

definition src_or_zero :: "num_src option \<Rightarrow> num_src" where
  "src_or_zero s = (case s of None \<Rightarrow> Num 0 | Some (Num v) \<Rightarrow> Num (js_or v 0) | Some r \<Rightarrow> r)"

definition reset_rotation :: "particle_options \<Rightarrow> rng \<Rightarrow> (real option \<times> real option) \<times> rng" where
  "reset_rotation options g0 =
     (if o_rotating options then
        (case randomizerOrValue (src_or_zero (o_rotation options)) g0 of (rot, g1) \<Rightarrow>
         case randomizerOrValue (src_or_zero (o_rotationSpeed options)) g1 of (spd, g2) \<Rightarrow>
           ((Some rot, Some spd), g2))
      else ((None, None), g0))"

text \<open>
  \<open>Particle.reset\<close>. Every field is assigned afresh, in the order of the source (which
  is the order of the random draws), so the result does not depend on the particle's
  previous life. The spawn hook runs last. The offset is asked for with
  \<open>returnNullIfUndefined\<close> left out, so it is never \<open>null\<close> and the position is always a
  vector. (The bundled build in \<open>dist\<close> also adds the position of a bound object to the
  offset; the source file of the class has that statement commented out, and the model
  follows the source file.)
\<close>

definition Particle_reset :: "particle_options \<Rightarrow> rng \<Rightarrow> error + (particle \<times> rng)" where
  "Particle_reset options g0 =
     (case getConstOrRandomVector (o_velocity options) False g0 of (velocity0, g1) \<Rightarrow>
      case getConstOrRandomVector (o_acceleration options) True g1 of (acceleration, g2) \<Rightarrow>
      case getConstOrRandomVector (o_offset options) False g2 of (position, g3) \<Rightarrow>
      case getRandomWithSpread (opt_or (o_ttl options) 1) (o_ttlExtra options) g3 of (t, g4) \<Rightarrow>
      let ttl = js_or t 1 in
      sum_bind (reset_triple (o_fade options) (o_alpha options) (o_startAlpha options)
                  (o_endAlpha options) g4)
        (\<lambda>((alpha, startAlpha, endAlpha), g5).
      case reset_colors options g5 of ((color, startColor, endColor), g6) \<Rightarrow>
      sum_bind (reset_triple (o_scaling options) (o_size options) (o_startSize options)
                  (o_endSize options) g6)
        (\<lambda>((size, startSize, endSize), g7).
      case reset_rotation options g7 of ((rotation, rotationSpeed), g8) \<Rightarrow>
      Inr (run_hook (o_onSpawn options)
        \<lparr> p_age = 0,
          p_finished = False,
          p_gravityX = o_gravityX options,
          p_gravityY = opt_or_opt (o_gravityY options) (o_gravity options),
          p_gravityZ = o_gravityZ options,
          p_velocity =
            (case o_velocityBonus options of
               None \<Rightarrow> velocity0
             | Some bonus \<Rightarrow> map_option (\<lambda>v. v_add v bonus) velocity0),
          p_acceleration = acceleration,
          p_position = (case position of None \<Rightarrow> Vector3 0 0 0 | Some v \<Rightarrow> v),
          p_ttl = ttl,
          p_alpha = alpha,
          p_startAlpha = startAlpha,
          p_endAlpha = endAlpha,
          p_startAlphaChangeAt = opt_or (o_startAlphaChangeAt options) 0 / ttl,
          p_colorize = o_colorize options,
          p_color = color,
          p_startColor = startColor,
          p_endColor = endColor,
          p_startColorChangeAt = opt_or (o_startColorChangeAt options) 0 / ttl,
          p_size = size,
          p_startSize = startSize,
          p_endSize = endSize,
          p_startSizeChangeAt = opt_or (o_startSizeChangeAt options) 0 / ttl,
          p_rotation = rotation,
          p_rotationSpeed = rotationSpeed,
          p_startWorldPosition = None \<rparr>, g8))))"

subsection \<open>update\<close>

text \<open>
  The calls a particle makes on its system's attribute-write interface, in the order it
  makes them: \<open>setAlpha(index, value)\<close> and so on. The value handed to \<open>setAlpha\<close> and
  \<open>setSize\<close> comes from an \<open>a || b\<close> over two nullable fields and may be \<open>null\<close>.
\<close>

datatype attr_write =
    SetAlpha nat "real option"
  | SetColor nat "color option"
  | SetSize nat "real option"
  | SetRotation nat real
  | SetPosition nat vec3

text \<open>The first update of a life pushes the constant or the start value of each attribute.\<close>

definition first_update :: "nat \<Rightarrow> particle \<Rightarrow> attr_write list" where
  "first_update index p =
     (if p_alpha p \<noteq> None \<or> p_startAlpha p \<noteq> None
      then [SetAlpha index (opt_or_opt (p_alpha p) (p_startAlpha p))] else []) @
     (if p_color p \<noteq> None \<or> p_startColor p \<noteq> None
      then [SetColor index (case p_color p of Some c \<Rightarrow> Some c | None \<Rightarrow> p_startColor p)]
      else []) @
     (if p_size p \<noteq> None \<or> p_startSize p \<noteq> None
      then [SetSize index (opt_or_opt (p_size p) (p_startSize p))] else []) @
     (case p_rotation p of None \<Rightarrow> [] | Some r \<Rightarrow> [SetRotation index r])"

text \<open>
  The interpolation factor: \<open>startChangeAt ? (age - startChangeAt) / (1 - startChangeAt) : age\<close>.
\<close>

definition change_factor :: "real \<Rightarrow> real \<Rightarrow> real" where
  "change_factor age startChangeAt =
     (if truthy startChangeAt then (age - startChangeAt) / (1 - startChangeAt) else age)"

text \<open>
  Later updates push the animated attributes: colour, alpha, size. \<open>Color.lerp\<close> reads the
  channels of the end colour and raises a TypeError on \<open>null\<close>; \<open>Utils.lerp\<close> is plain
  arithmetic, where \<open>null\<close> counts as 0.
\<close>

definition animate :: "nat \<Rightarrow> particle \<Rightarrow> error + attr_write list" where
  "animate index p =
     sum_bind
       (case p_startColor p of
          None \<Rightarrow> Inr []
        | Some sc \<Rightarrow>
           if p_age p \<ge> p_startColorChangeAt p then
             (case p_endColor p of
                None \<Rightarrow> Inl TypeError
              | Some ec \<Rightarrow>
                 Inr [SetColor index
                       (Some (lerpColors sc ec (change_factor (p_age p) (p_startColorChangeAt p))))])
           else Inr [])
       (\<lambda>wc. Inr (wc @
          (if p_startAlpha p \<noteq> None \<and> p_age p \<ge> p_startAlphaChangeAt p
           then [SetAlpha index
                  (Some (lerp (ToNumber (p_startAlpha p)) (ToNumber (p_endAlpha p))
                           (change_factor (p_age p) (p_startAlphaChangeAt p))))]
           else []) @
          (if p_startSize p \<noteq> None \<and> p_age p \<ge> p_startSizeChangeAt p
           then [SetSize index
                  (Some (lerp (ToNumber (p_startSize p)) (ToNumber (p_endSize p))
                           (change_factor (p_age p) (p_startSizeChangeAt p))))]
           else [])))"

text \<open>Rotation advances on every update, whenever the rotation speed is truthy.\<close>

definition rotate :: "nat \<Rightarrow> real \<Rightarrow> particle \<Rightarrow> particle \<times> attr_write list" where
  "rotate index deltaTime p =
     (if opt_truthy (p_rotationSpeed p) then
        (let r = ToNumber (p_rotation p) + ToNumber (p_rotationSpeed p) * deltaTime
         in (p\<lparr>p_rotation := Some r\<rparr>, [SetRotation index r]))
      else (p, []))"

text \<open>
  \<open>if (this.velocity)\<close>: gravity is added to the velocity axis by axis (an axis whose
  gravity is missing or 0 is skipped), then the position moves by the new velocity.
\<close>

definition add_gravity :: "real option \<Rightarrow> real \<Rightarrow> real \<Rightarrow> real" where
  "add_gravity gravity deltaTime v =
     (if opt_truthy gravity then v + ToNumber gravity * deltaTime else v)"

definition with_gravity :: "particle \<Rightarrow> real \<Rightarrow> vec3 \<Rightarrow> vec3" where
  "with_gravity p deltaTime v =
     Vector3 (add_gravity (p_gravityX p) deltaTime (vx v))
             (add_gravity (p_gravityY p) deltaTime (vy v))
             (add_gravity (p_gravityZ p) deltaTime (vz v))"

definition integrate_position :: "real \<Rightarrow> particle \<Rightarrow> particle" where
  "integrate_position deltaTime p =
     (case p_velocity p of
        None \<Rightarrow> p
      | Some v \<Rightarrow>
         let v' = with_gravity p deltaTime v;
             pos = p_position p
         in p\<lparr>p_velocity := Some v',
               p_position := Vector3 (vx pos + vx v' * deltaTime)
                                     (vy pos + vy v' * deltaTime)
                                     (vz pos + vz v' * deltaTime)\<rparr>)"

text \<open>
  The position handed to \<open>setPosition\<close>: a copy of the local position (in \<open>TMP1\<close>), less
  the system's movement since the anchor was taken when there is an anchor.
\<close>

definition positionToSet :: "vec3 \<Rightarrow> particle \<Rightarrow> vec3" where
  "positionToSet systemPos p =
     (case p_startWorldPosition p of
        None \<Rightarrow> p_position p
      | Some anchor \<Rightarrow> v_sub (p_position p) (v_sub systemPos anchor))"

text \<open>\<open>if (this.acceleration && this.velocity)\<close>, after the position is pushed.\<close>

definition integrate_velocity :: "real \<Rightarrow> particle \<Rightarrow> particle" where
  "integrate_velocity deltaTime p =
     (case p_acceleration p of
        None \<Rightarrow> p
      | Some a \<Rightarrow>
         (case p_velocity p of
            None \<Rightarrow> p
          | Some v \<Rightarrow>
             p\<lparr>p_velocity := Some (Vector3 (vx v + vx a * deltaTime)
                                            (vy v + vy a * deltaTime)
                                            (vz v + vz a * deltaTime))\<rparr>))"

text \<open>\<open>if (this.age > 1) { this.age = 1; this.finished = true; }\<close>\<close>

definition check_done :: "particle \<Rightarrow> particle" where
  "check_done p = (if p_age p > 1 then p\<lparr>p_age := 1, p_finished := True\<rparr> else p)"

text \<open>
  The first branch of \<open>Particle.update\<close>: on the first update of a life (\<open>age === 0\<close>)
  the anchor is taken, when the option asks for it, and the initial values are pushed;
  on later updates the animated values are pushed.
\<close>

definition start_update ::
  "particle_options \<Rightarrow> vec3 \<Rightarrow> nat \<Rightarrow> particle \<Rightarrow> error + (particle \<times> attr_write list)" where
  "start_update options systemPos index p =
     (if p_age p = 0 then
        Inr (if o_worldPosition options then p\<lparr>p_startWorldPosition := Some systemPos\<rparr> else p,
             first_update index p)
      else sum_bind (animate index p) (\<lambda>w. Inr (p, w)))"

text \<open>\<open>this.age += deltaTime / this.ttl\<close>\<close>

definition advance_age :: "real \<Rightarrow> particle \<Rightarrow> particle" where
  "advance_age deltaTime p = p\<lparr>p_age := p_age p + deltaTime / p_ttl p\<rparr>"

text \<open>
  \<open>Particle.update(index, deltaTime)\<close>, given the particle options of the system and the
  system's world position (\<open>this.system.getWorldPosition()\<close>, the same at both places of
  one call). It returns the particle and the writes it made on the system.
\<close>

definition Particle_update ::
  "particle_options \<Rightarrow> vec3 \<Rightarrow> nat \<Rightarrow> real \<Rightarrow> particle \<Rightarrow> error + (particle \<times> attr_write list)" where
  "Particle_update options systemPos index deltaTime p =
     (if p_finished p then Inr (p, [])
      else
        sum_bind (start_update options systemPos index p)
          (\<lambda>(p1, w1).
             case rotate index deltaTime p1 of (p2, w2) \<Rightarrow>
             let p3 = integrate_position deltaTime p2;
                 w3 = [SetPosition index (positionToSet systemPos p3)];
                 p4 = integrate_velocity deltaTime p3;
                 p5 = advance_age deltaTime p4;
                 p6 = run_hook (o_onUpdate options) p5
             in Inr (check_done p6, w1 @ w2 @ w3)))"

text \<open>A run of updates of one particle, each with its own system position and time step.\<close>

fun Particle_updates ::
  "particle_options \<Rightarrow> nat \<Rightarrow> (vec3 \<times> real) list \<Rightarrow> particle \<Rightarrow> error + particle" where
  "Particle_updates options index [] p = Inr p"
| "Particle_updates options index ((systemPos, deltaTime) # steps) p =
     sum_bind (Particle_update options systemPos index deltaTime p)
       (\<lambda>(p', w). Particle_updates options index steps p')"

section \<open>Emitter\<close>

text \<open>
  The emitter class, from the bundled build \<open>dist/partykals.module.js\<close> (the only place
  its source is in). The constructor overwrites \<open>options.interval\<close> with
  \<open>options.interval || 1\<close>, so an emitter always has an interval; its other options are
  kept as given.
\<close>

record emitter_options =
  eo_onSpawnBurst :: "num_src option"
  eo_onInterval :: "num_src option"
  eo_interval :: "num_src option"
  eo_detoretingMinTtl :: "real option"

record emitter =
  e_onSpawnBurst :: "num_src option"
  e_onInterval :: "num_src option"
  e_interval :: num_src
  e_detoretingMinTtl :: "real option"
  e_age :: real
  e_timeToSpawn :: real

text \<open>The truthiness of a number-or-randomizer value: an object is always truthy.\<close>

fun src_truthy :: "num_src \<Rightarrow> bool" where
  "src_truthy (Num v) = truthy v"
| "src_truthy (MinMaxRandomizer mn mx) = True"

text \<open>\<open>options.interval || 1\<close>\<close>

definition src_or_one :: "num_src option \<Rightarrow> num_src" where
  "src_or_one s = (case s of None \<Rightarrow> Num 1 | Some src \<Rightarrow> if src_truthy src then src else Num 1)"

text \<open>
  The constructor: \<open>Math.random()\<close> is drawn before the interval is resolved (the
  operands of \<open>*\<close> are evaluated left to right).
\<close>

definition Emitter_new :: "emitter_options \<Rightarrow> rng \<Rightarrow> emitter \<times> rng" where
  "Emitter_new options g0 =
     (let interval = src_or_one (eo_interval options) in
      case Math_random g0 of (u, g1) \<Rightarrow>
      case randomizerOrValue interval g1 of (iv, g2) \<Rightarrow>
        (\<lparr>e_onSpawnBurst = eo_onSpawnBurst options,
          e_onInterval = eo_onInterval options,
          e_interval = interval,
          e_detoretingMinTtl = eo_detoretingMinTtl options,
          e_age = 0,
          e_timeToSpawn = u * iv\<rparr>, g2))"

text \<open>
  The last step of \<open>Emitter.update\<close>. Of the system it reads \<open>system.ttl\<close>, which is
  \<open>undefined\<close> for a system without a lifetime (and \<open>undefined < x\<close> is false).
\<close>

definition decay :: "real option \<Rightarrow> real option \<Rightarrow> real \<Rightarrow> real" where
  "decay detoretingMinTtl system_ttl ret =
     (case system_ttl of
        None \<Rightarrow> ret
      | Some t \<Rightarrow>
         if opt_truthy detoretingMinTtl \<and> t < ToNumber detoretingMinTtl
         then ret * (t / ToNumber detoretingMinTtl)
         else ret)"

text \<open>\<open>if (this.age === 0 && this.options.onSpawnBurst) ret += randomizerOrValue(...)\<close>\<close>

definition burst :: "emitter \<Rightarrow> rng \<Rightarrow> real \<times> rng" where
  "burst e g =
     (case e_onSpawnBurst e of
        None \<Rightarrow> (0, g)
      | Some b \<Rightarrow> if e_age e = 0 \<and> src_truthy b then randomizerOrValue b g else (0, g))"

text \<open>
  \<open>Emitter.update(deltaTime, system)\<close>. It returns the number of particles to spawn,
  the emitter and the random source.
\<close>

definition Emitter_update ::
  "real \<Rightarrow> real option \<Rightarrow> emitter \<Rightarrow> rng \<Rightarrow> real \<times> emitter \<times> rng" where
  "Emitter_update deltaTime system_ttl e g0 =
     (case burst e g0 of (ret1, g1) \<Rightarrow>
      let e1 = e\<lparr>e_age := e_age e + deltaTime\<rparr> in
      (case e_onInterval e of
         None \<Rightarrow> (ret1, e1, g1)
       | Some onInterval \<Rightarrow>
          if \<not> src_truthy onInterval then (ret1, e1, g1)
          else
            let e2 = e1\<lparr>e_timeToSpawn := e_timeToSpawn e1 - deltaTime\<rparr> in
            case (if e_timeToSpawn e2 \<le> 0 then
                    (case randomizerOrValue (e_interval e2) g1 of (iv, g2) \<Rightarrow>
                     case randomizerOrValue onInterval g2 of (q, g3) \<Rightarrow>
                       (ret1 + q, e2\<lparr>e_timeToSpawn := iv\<rparr>, g3))
                  else (ret1, e2, g1)) of (ret2, e3, g4) \<Rightarrow>
              (decay (e_detoretingMinTtl e3) system_ttl ret2, e3, g4)))"

section \<open>ParticlesSystem\<close>

text \<open>
  \<open>options.system\<close>. A single emitter and an array of emitters are both a list here.
  The rendering switches (perspective, scale, depth test and write) only reach the
  material and are left out.
\<close>

record system_options =
  so_particlesCount :: "nat option"
  so_ttl :: "real option"
  so_speed :: "real option"
  so_emitters :: "emitter list"

record options =
  opt_particles :: "particle_options option"
  opt_system :: "system_options option"

text \<open>
  The state of a \<open>ParticlesSystem\<close>. The geometry's attribute arrays are the flat typed
  arrays the constructor allocates; an attribute that was not allocated is \<open>None\<close>.
  \<open>s_position\<close> is the local position of the system's \<open>THREE.Points\<close> object and
  \<open>s_boundObject\<close> the position of the object bound with \<open>bindObject\<close> (its rotation
  only turns the points object and is left out). \<open>s_random\<close> is the state of
  \<open>Math.random\<close>.
\<close>

record system =
  s_options :: particle_options
  s_boundObject :: "vec3 option"
  s_position :: vec3
  s_ttl :: "real option"
  s_age :: real
  s_speed :: real
  s_dt :: "real option"
  s_timeToUpdateBS :: real
  s_emitters :: "emitter list"
  s_aliveParticles :: "particle list"
  s_deadParticles :: "particle list"
  s_vertices :: "real list"
  s_colors :: "real list option"
  s_alphas :: "real list option"
  s_sizes :: "real list option"
  s_rotations :: "real list option"
  s_drawRange :: nat
  s_positionDirty :: bool
  s_colorsDirty :: bool
  s_alphaDirty :: bool
  s_sizeDirty :: bool
  s_rotateDirty :: bool
  s_needBoundingSphereUpdate :: bool
  s_position_needsUpdate :: bool
  s_color_needsUpdate :: bool
  s_alpha_needsUpdate :: bool
  s_size_needsUpdate :: bool
  s_rotation_needsUpdate :: bool
  s_random :: rng

text \<open>
  The hooks of a system: \<open>options.system.onFinish\<close>, \<open>this.onFinish\<close>,
  \<open>options.system.onUpdate\<close> and \<open>this.onUpdate\<close>. Each receives the system.
\<close>

record hooks =
  h_options_onFinish :: "(system \<Rightarrow> system) option"
  h_onFinish :: "(system \<Rightarrow> system) option"
  h_options_onUpdate :: "(system \<Rightarrow> system) option"
  h_onUpdate :: "(system \<Rightarrow> system) option"

definition "defined" :: "'a option \<Rightarrow> bool" where
  "defined val = (val \<noteq> None)"

definition ttlExpired :: "system \<Rightarrow> bool" where
  "ttlExpired s = (case s_ttl s of None \<Rightarrow> False | Some t \<Rightarrow> t \<le> 0)"

definition particlesCount :: "system \<Rightarrow> nat" where
  "particlesCount s = length (s_aliveParticles s)"

definition maxParticlesCount :: "system \<Rightarrow> nat" where
  "maxParticlesCount s = length (s_aliveParticles s) + length (s_deadParticles s)"

definition finished :: "system \<Rightarrow> bool" where
  "finished s = (ttlExpired s \<and> particlesCount s = 0)"

definition gracefulStop :: "system \<Rightarrow> system" where
  "gracefulStop s = s\<lparr>s_ttl := Some 0\<rparr>"

subsection \<open>The attribute-write interface\<close>

text \<open>
  Each setter reads \<open>this.particlesGeometry.attributes.<name>.array\<close> and raises a
  TypeError when the attribute was not allocated; \<open>setColor\<close> also reads the channels of
  its argument. A write beyond the end of a typed array is ignored, as \<open>xs[i := v]\<close> is,
  and a typed array stores \<open>null\<close> as 0. The rounding of a stored number to single
  precision is left out.
\<close>

definition setColor :: "nat \<Rightarrow> color option \<Rightarrow> system \<Rightarrow> error + system" where
  "setColor index col s =
     (case s_colors s of
        None \<Rightarrow> Inl TypeError
      | Some colors \<Rightarrow>
         (case col of
            None \<Rightarrow> Inl TypeError
          | Some c \<Rightarrow>
             Inr (s\<lparr>s_colors := Some (colors[index * 3 := cr c, index * 3 + 1 := cg c,
                                              index * 3 + 2 := cb c]),
                     s_colorsDirty := True\<rparr>)))"

definition setPosition :: "nat \<Rightarrow> vec3 \<Rightarrow> system \<Rightarrow> system" where
  "setPosition index position s =
     s\<lparr>s_vertices := (s_vertices s)[index * 3 := vx position, index * 3 + 1 := vy position,
                                       index * 3 + 2 := vz position],
       s_positionDirty := True\<rparr>"

definition setAlpha :: "nat \<Rightarrow> real option \<Rightarrow> system \<Rightarrow> error + system" where
  "setAlpha index val s =
     (case s_alphas s of
        None \<Rightarrow> Inl TypeError
      | Some alphas \<Rightarrow> Inr (s\<lparr>s_alphas := Some (alphas[index := ToNumber val]),
                               s_alphaDirty := True\<rparr>))"

definition setRotation :: "nat \<Rightarrow> real \<Rightarrow> system \<Rightarrow> error + system" where
  "setRotation index val s =
     (case s_rotations s of
        None \<Rightarrow> Inl TypeError
      | Some rotations \<Rightarrow> Inr (s\<lparr>s_rotations := Some (rotations[index := val]),
                                  s_rotateDirty := True\<rparr>))"

definition setSize :: "nat \<Rightarrow> real option \<Rightarrow> system \<Rightarrow> error + system" where
  "setSize index val s =
     (case s_sizes s of
        None \<Rightarrow> Inl TypeError
      | Some sizes \<Rightarrow> Inr (s\<lparr>s_sizes := Some (sizes[index := ToNumber val]),
                              s_sizeDirty := True\<rparr>))"

fun apply_write :: "attr_write \<Rightarrow> system \<Rightarrow> error + system" where
  "apply_write (SetAlpha index val) s = setAlpha index val s"
| "apply_write (SetColor index col) s = setColor index col s"
| "apply_write (SetSize index val) s = setSize index val s"
| "apply_write (SetRotation index val) s = setRotation index val s"
| "apply_write (SetPosition index position) s = Inr (setPosition index position s)"

fun apply_writes :: "attr_write list \<Rightarrow> system \<Rightarrow> error + system" where
  "apply_writes [] s = Inr s"
| "apply_writes (w # ws) s = sum_bind (apply_write w s) (apply_writes ws)"

subsection \<open>spawnParticles\<close>

text \<open>
  \<open>for (let i = 0; i < quantity; ++i)\<close>: the loop leaves when the dead pool is empty;
  otherwise the last dead particle is popped, reset and pushed onto the alive list. Every
  turn takes one particle from the dead pool, which bounds the loop.
\<close>

function spawn_loop :: "real \<Rightarrow> nat \<Rightarrow> system \<Rightarrow> error + system" where
  "spawn_loop quantity i s =
     (if real i < quantity then
        (if s_deadParticles s = [] then Inr s
         else
           (case Particle_reset (s_options s) (s_random s) of
              Inl e \<Rightarrow> Inl e
            | Inr (particle, g) \<Rightarrow>
               spawn_loop quantity (Suc i)
                 (s\<lparr>s_deadParticles := butlast (s_deadParticles s),
                    s_aliveParticles := s_aliveParticles s @ [particle],
                    s_random := g\<rparr>)))
      else Inr s)"
  by pat_completeness auto
termination
  by (relation "measure (\<lambda>(quantity, i, s). length (s_deadParticles s))") auto

declare spawn_loop.simps [simp del]

definition spawnParticles :: "real \<Rightarrow> system \<Rightarrow> error + system" where
  "spawnParticles quantity s = spawn_loop quantity 0 s"

subsection \<open>update\<close>

text \<open>
  The emitters, in order: each is updated against the system's remaining lifetime at that
  moment and a truthy count is handed to \<open>spawnParticles\<close>.
\<close>

fun update_emitters :: "real \<Rightarrow> emitter list \<Rightarrow> system \<Rightarrow> error + (emitter list \<times> system)" where
  "update_emitters deltaTime [] s = Inr ([], s)"
| "update_emitters deltaTime (e # es) s =
     (case Emitter_update deltaTime (s_ttl s) e (s_random s) of (toSpawn, e', g) \<Rightarrow>
        sum_bind (if truthy toSpawn then spawnParticles toSpawn (s\<lparr>s_random := g\<rparr>)
                  else Inr (s\<lparr>s_random := g\<rparr>))
          (\<lambda>s'. sum_bind (update_emitters deltaTime es s')
             (\<lambda>(es', s''). Inr (e' # es', s''))))"

text \<open>
  \<open>for (let i = this._aliveParticles.length - 1; i >= 0; --i)\<close>: the counter of the
  model is \<open>i + 1\<close>. A finished particle is spliced out of the alive list at its index
  and pushed onto the dead list. Reading an index beyond the list would give
  \<open>undefined\<close>, and the call of its \<open>update\<close> a TypeError.
\<close>

fun update_particles :: "vec3 \<Rightarrow> real \<Rightarrow> nat \<Rightarrow> system \<Rightarrow> error + system" where
  "update_particles systemPos deltaTime 0 s = Inr s"
| "update_particles systemPos deltaTime (Suc i) s =
     (if i < length (s_aliveParticles s) then
        sum_bind (Particle_update (s_options s) systemPos i deltaTime (s_aliveParticles s ! i))
          (\<lambda>(particle, writes). sum_bind (apply_writes writes s)
             (\<lambda>s'. update_particles systemPos deltaTime i
                (if p_finished particle then
                   s'\<lparr>s_aliveParticles :=
                         take i (s_aliveParticles s') @ drop (Suc i) (s_aliveParticles s'),
                      s_deadParticles := s_deadParticles s' @ [particle]\<rparr>
                 else s'\<lparr>s_aliveParticles := (s_aliveParticles s')[i := particle]\<rparr>)))
      else Inl TypeError)"

text \<open>The dirty flags are handed to the geometry and cleared.\<close>

definition flush_dirty :: "system \<Rightarrow> system" where
  "flush_dirty s =
     s\<lparr>s_position_needsUpdate := s_positionDirty s,
       s_needBoundingSphereUpdate := (s_needBoundingSphereUpdate s \<or> s_positionDirty s),
       s_positionDirty := False,
       s_color_needsUpdate := (s_colorsDirty s \<or> s_color_needsUpdate s),
       s_colorsDirty := False,
       s_alpha_needsUpdate := (s_alphaDirty s \<or> s_alpha_needsUpdate s),
       s_alphaDirty := False,
       s_size_needsUpdate := (s_sizeDirty s \<or> s_size_needsUpdate s),
       s_sizeDirty := False,
       s_rotation_needsUpdate := (s_rotateDirty s \<or> s_rotation_needsUpdate s),
       s_rotateDirty := False\<rparr>"

definition update_bounding_sphere :: "real \<Rightarrow> system \<Rightarrow> system" where
  "update_bounding_sphere deltaTime s =
     (if s_needBoundingSphereUpdate s then
        (let t = s_timeToUpdateBS s - deltaTime
         in s\<lparr>s_timeToUpdateBS := (if t \<le> 0 then 0.2 else t)\<rparr>)
      else s)"

text \<open>
  \<open>ParticlesSystem.update(deltaTime)\<close> with the time step given (the source reads the
  clock when it is left out). \<open>world\<close> is \<open>THREE.Object3D.getWorldPosition\<close>: what the
  transforms of the ancestors in the scene make of the local position of the points
  object.
\<close>

definition System_update :: "hooks \<Rightarrow> (vec3 \<Rightarrow> vec3) \<Rightarrow> real \<Rightarrow> system \<Rightarrow> error + system" where
  "System_update hooks world deltaTime0 s0 =
     (if deltaTime0 = 0 then Inr s0
      else
        let s1 = (case s_ttl s0 of
                    None \<Rightarrow> s0
                  | Some t \<Rightarrow> if t > 0 then s0\<lparr>s_ttl := Some (t - deltaTime0)\<rparr> else s0);
            deltaTime = deltaTime0 * s_speed s1;
            s2 = s1\<lparr>s_dt := Some deltaTime, s_age := s_age s1 + deltaTime\<rparr>;
            s3 = (case s_boundObject s2 of None \<Rightarrow> s2 | Some pos \<Rightarrow> s2\<lparr>s_position := pos\<rparr>);
            prevParticlesCount = length (s_aliveParticles s3)
        in sum_bind
             (if \<not> ttlExpired s3 then
                sum_bind (update_emitters deltaTime (s_emitters s3) s3)
                  (\<lambda>(es, s). Inr (s\<lparr>s_emitters := es\<rparr>))
              else Inr s3)
             (\<lambda>s4. sum_bind
                (update_particles (world (s_position s4)) deltaTime
                   (length (s_aliveParticles s4)) s4)
                (\<lambda>s5.
                   let s6 = (if prevParticlesCount \<noteq> length (s_aliveParticles s5)
                             then s5\<lparr>s_drawRange := length (s_aliveParticles s5)\<rparr> else s5);
                       s7 = update_bounding_sphere deltaTime (flush_dirty s6)
                   in Inr (if finished s7
                           then run_hook (h_onFinish hooks) (run_hook (h_options_onFinish hooks) s7)
                           else run_hook (h_onUpdate hooks)
                                  (run_hook (h_options_onUpdate hooks) s7)))))"

subsection \<open>The constructor\<close>

text \<open>\<open>options.particles || { worldPosition: true }\<close>\<close>

definition default_particle_options :: particle_options where
  "default_particle_options =
     \<lparr> o_ttl = None, o_ttlExtra = None, o_alpha = None, o_startAlpha = None, o_endAlpha = None,
       o_startAlphaChangeAt = None, o_size = None, o_startSize = None, o_endSize = None,
       o_startSizeChangeAt = None, o_color = None, o_startColor = None, o_endColor = None,
       o_startColorChangeAt = None, o_acceleration = None, o_gravity = None, o_gravityX = None,
       o_gravityY = None, o_gravityZ = None, o_rotation = None, o_rotationSpeed = None,
       o_velocity = None, o_velocityBonus = None, o_offset = None, o_worldPosition = True,
       o_globalSize = None, o_globalColor = None, o_onUpdate = None, o_onSpawn = None,
       o_fade = False, o_rotating = False, o_colorize = False, o_scaling = False \<rparr>"

definition default_system_options :: system_options where
  "default_system_options =
     \<lparr> so_particlesCount = None, so_ttl = None, so_speed = None, so_emitters = [] \<rparr>"

text \<open>
  A size given as a plain number becomes \<open>globalSize\<close> and a colour given as a
  \<open>THREE.Color\<close> becomes \<open>globalColor\<close>; the property itself is deleted.
\<close>

definition replace_constants :: "particle_options \<Rightarrow> particle_options" where
  "replace_constants options =
     (let o1 = (case o_size options of
                  Some (Num n) \<Rightarrow> options\<lparr>o_globalSize := Some n, o_size := None\<rparr>
                | _ \<Rightarrow> options)
      in case o_color o1 of
           Some (Col c) \<Rightarrow> o1\<lparr>o_globalColor := Some c, o_color := None\<rparr>
         | _ \<Rightarrow> o1)"

definition set_flags :: "particle_options \<Rightarrow> particle_options" where
  "set_flags pOptions =
     pOptions\<lparr>o_fade := (defined (o_startAlpha pOptions) \<or> defined (o_alpha pOptions)),
              o_rotating := (defined (o_rotationSpeed pOptions) \<or> defined (o_rotation pOptions)),
              o_colorize := (defined (o_color pOptions) \<or> defined (o_startColor pOptions)),
              o_scaling := (defined (o_size pOptions) \<or> defined (o_startSize pOptions))\<rparr>"

definition validate :: "particle_options \<Rightarrow> error + unit" where
  "validate pOptions =
     (if defined (o_startAlpha pOptions) \<and> \<not> defined (o_endAlpha pOptions) then
        Inl (Error ''When providing 'startAlpha' you must also provide 'endAlpha'!'')
      else if defined (o_startAlpha pOptions) \<and> defined (o_alpha pOptions) then
        Inl (Error ''When providing 'alpha' you can't also provide 'startAlpha'!'')
      else if defined (o_startColor pOptions) \<and> \<not> defined (o_endColor pOptions) then
        Inl (Error ''When providing 'startColor' you must also provide 'endColor'!'')
      else if defined (o_startColor pOptions) \<and> defined (o_color pOptions) then
        Inl (Error ''When providing 'color' you can't also provide 'startColor'!'')
      else if defined (o_startSize pOptions) \<and> \<not> defined (o_endSize pOptions) then
        Inl (Error ''When providing 'startSize' you must also provide 'endSize'!'')
      else if defined (o_startSize pOptions) \<and> defined (o_size pOptions) then
        Inl (Error ''When providing 'size' you can't also provide 'startSize'!'')
      else Inr ())"

text \<open>\<open>options.system.particlesCount || 10\<close>\<close>

definition particleCount :: "system_options \<Rightarrow> nat" where
  "particleCount sOptions =
     (case so_particlesCount sOptions of None \<Rightarrow> 10 | Some n \<Rightarrow> if n = 0 then 10 else n)"

text \<open>
  \<open>this._deadParticles.push(new Particle(this))\<close>, \<open>particleCount\<close> times; the
  constructor of a particle resets it.
\<close>

fun make_particles :: "particle_options \<Rightarrow> nat \<Rightarrow> rng \<Rightarrow> error + (particle list \<times> rng)" where
  "make_particles options 0 g = Inr ([], g)"
| "make_particles options (Suc n) g =
     sum_bind (Particle_reset options g)
       (\<lambda>(p, g'). sum_bind (make_particles options n g')
          (\<lambda>(ps, g''). Inr (p # ps, g'')))"

text \<open>
  \<open>new ParticlesSystem(options)\<close>, with the state of \<open>Math.random\<close>. The material, the
  blending mode and the container are the renderer's and are left out; the points object
  starts at the origin.
\<close>

definition ParticlesSystem_new :: "options \<Rightarrow> rng \<Rightarrow> error + system" where
  "ParticlesSystem_new options g =
     (let particles = (case opt_particles options of
                         None \<Rightarrow> default_particle_options | Some po \<Rightarrow> po);
          sOptions = (case opt_system options of
                        None \<Rightarrow> default_system_options | Some so \<Rightarrow> so);
          pOptions = set_flags (replace_constants particles)
      in sum_bind (validate pOptions)
           (\<lambda>_. let n = particleCount sOptions in
              sum_bind (make_particles pOptions n g)
                (\<lambda>(dead, g').
                   Inr \<lparr> s_options = pOptions,
                         s_boundObject = None,
                         s_position = Vector3 0 0 0,
                         s_ttl = so_ttl sOptions,
                         s_age = 0,
                         s_speed = opt_or (so_speed sOptions) 1,
                         s_dt = None,
                         s_timeToUpdateBS = 0,
                         s_emitters = so_emitters sOptions,
                         s_aliveParticles = [],
                         s_deadParticles = dead,
                         s_vertices = replicate (n * 3) 0,
                         s_colors = (if o_colorize pOptions
                                     then Some (replicate (n * 3) 1) else None),
                         s_alphas = (if o_fade pOptions then Some (replicate n 1) else None),
                         s_sizes = (if o_scaling pOptions then Some (replicate n 1) else None),
                         s_rotations = (if o_rotating pOptions
                                        then Some (replicate n 0) else None),
                         s_drawRange = 0,
                         s_positionDirty = True,
                         s_colorsDirty = o_colorize pOptions,
                         s_alphaDirty = o_fade pOptions,
                         s_sizeDirty = False,
                         s_rotateDirty = o_rotating pOptions,
                         s_needBoundingSphereUpdate = False,
                         s_position_needsUpdate = False,
                         s_color_needsUpdate = False,
                         s_alpha_needsUpdate = False,
                         s_size_needsUpdate = False,
                         s_rotation_needsUpdate = False,
                         s_random = g' \<rparr>)))"

section \<open>Runs and the conditions the statements use\<close>

text \<open>
  The states a particle passes through under a run of updates, the first state included.
  A call that raises ends the run.
\<close>

fun Particle_run ::
  "particle_options \<Rightarrow> nat \<Rightarrow> (vec3 \<times> real) list \<Rightarrow> particle \<Rightarrow> particle list" where
  "Particle_run options index [] p = [p]"
| "Particle_run options index ((systemPos, deltaTime) # steps) p =
     p # (case Particle_update options systemPos index deltaTime p of
            Inl e \<Rightarrow> []
          | Inr (p', w) \<Rightarrow> Particle_run options index steps p')"

text \<open>
  The operations of a caller on a system: an update, under the scene's current world
  transform, or a request to spawn. The states a system passes through, the first
  included; a call that raises ends the run.
\<close>

datatype operation = Update "vec3 \<Rightarrow> vec3" real | Spawn real

fun perform :: "hooks \<Rightarrow> operation \<Rightarrow> system \<Rightarrow> error + system" where
  "perform hooks (Update world deltaTime) s = System_update hooks world deltaTime s"
| "perform hooks (Spawn quantity) s = spawnParticles quantity s"

fun System_run :: "hooks \<Rightarrow> operation list \<Rightarrow> system \<Rightarrow> system list" where
  "System_run hooks [] s = [s]"
| "System_run hooks (c # cs) s =
     s # (case perform hooks c s of Inl e \<Rightarrow> [] | Inr s' \<Rightarrow> System_run hooks cs s')"

text \<open>A hook of a particle that leaves its age, its time to live and its finished flag alone.\<close>

definition keeps_age :: "(particle \<Rightarrow> particle) option \<Rightarrow> bool" where
  "keeps_age h =
     (\<forall>q. p_age (run_hook h q) = p_age q \<and> p_ttl (run_hook h q) = p_ttl q \<and>
          p_finished (run_hook h q) = p_finished q)"

text \<open>A hook of a system that moves no particle into or out of its two pools.\<close>

definition keeps_pools :: "(system \<Rightarrow> system) option \<Rightarrow> bool" where
  "keeps_pools h = (\<forall>s. maxParticlesCount (run_hook h s) = maxParticlesCount s)"

text \<open>A duration that is left out or not negative.\<close>

definition nonneg :: "real option \<Rightarrow> bool" where
  "nonneg a = (case a of None \<Rightarrow> True | Some v \<Rightarrow> 0 \<le> v)"

text \<open>
  A particle whose colour animation has both ends: every reset leaves a particle so, and
  \<open>Color.lerp\<close> does not raise on it.
\<close>

definition lerp_safe :: "particle \<Rightarrow> bool" where
  "lerp_safe p = (p_startColor p = None \<or> p_endColor p \<noteq> None)"

text \<open>
  Particle options on which \<open>Particle.reset\<close> resolves no missing value: what the
  constructor's flags and checks leave behind.
\<close>

definition reset_safe :: "particle_options \<Rightarrow> bool" where
  "reset_safe options =
     ((\<not> o_fade options \<or> o_alpha options \<noteq> None \<or>
         (o_startAlpha options \<noteq> None \<and> o_endAlpha options \<noteq> None)) \<and>
      (\<not> o_scaling options \<or> o_size options \<noteq> None \<or>
         (o_startSize options \<noteq> None \<and> o_endSize options \<noteq> None)))"

text \<open>
  A particle that nothing moves: its velocity is zero, no gravity acts on any axis and it
  has no acceleration, or a zero one.
\<close>

definition at_rest :: "particle \<Rightarrow> bool" where
  "at_rest p =
     (p_velocity p = Some (Vector3 0 0 0) \<and>
      \<not> opt_truthy (p_gravityX p) \<and> \<not> opt_truthy (p_gravityY p) \<and>
      \<not> opt_truthy (p_gravityZ p) \<and>
      (p_acceleration p = None \<or> p_acceleration p = Some (Vector3 0 0 0)))"

text \<open>
  A particle that writes only to attributes the options have switched on, and a system
  whose particles are all so, whose switched-on attributes are allocated, and whose
  particle options have no hooks and are safe to reset on. Every system the constructor
  makes from options without particle hooks is so.
\<close>

definition fits :: "particle_options \<Rightarrow> particle \<Rightarrow> bool" where
  "fits options p =
     (lerp_safe p \<and>
      (p_alpha p = None \<and> p_startAlpha p = None \<or> o_fade options) \<and>
      (p_color p = None \<and> p_startColor p = None \<or> o_colorize options) \<and>
      (p_size p = None \<and> p_startSize p = None \<or> o_scaling options) \<and>
      (p_rotation p = None \<and> \<not> opt_truthy (p_rotationSpeed p) \<or> o_rotating options))"

definition permitted :: "particle_options \<Rightarrow> attr_write \<Rightarrow> bool" where
  "permitted options w =
     (case w of
        SetAlpha i v \<Rightarrow> o_fade options
      | SetColor i c \<Rightarrow> o_colorize options \<and> c \<noteq> None
      | SetSize i v \<Rightarrow> o_scaling options
      | SetRotation i v \<Rightarrow> o_rotating options
      | SetPosition i v \<Rightarrow> True)"

definition allocated :: "system \<Rightarrow> bool" where
  "allocated s =
     ((s_alphas s \<noteq> None \<or> \<not> o_fade (s_options s)) \<and>
      (s_colors s \<noteq> None \<or> \<not> o_colorize (s_options s)) \<and>
      (s_sizes s \<noteq> None \<or> \<not> o_scaling (s_options s)) \<and>
      (s_rotations s \<noteq> None \<or> \<not> o_rotating (s_options s)))"

definition provisioned :: "system \<Rightarrow> bool" where
  "provisioned s =
     (allocated s \<and> reset_safe (s_options s) \<and>
      o_onUpdate (s_options s) = None \<and> o_onSpawn (s_options s) = None \<and>
      list_all (fits (s_options s)) (s_aliveParticles s) \<and>
      list_all (fits (s_options s)) (s_deadParticles s))"

text \<open>An emitter without an interval policy: \<open>!this.options.onInterval\<close>.\<close>

definition no_interval :: "emitter \<Rightarrow> bool" where
  "no_interval e = (case e_onInterval e of None \<Rightarrow> True | Some q \<Rightarrow> \<not> src_truthy q)"

text \<open>The capacity an options object asks for.\<close>

definition configuredCapacity :: "options \<Rightarrow> nat" where
  "configuredCapacity options =
     particleCount (case opt_system options of None \<Rightarrow> default_system_options | Some so \<Rightarrow> so)"

section \<open>Example configurations\<close>

definition origin :: vec3 where
  "origin = Vector3 0 0 0"

definition still :: rng where
  "still = (\<lambda>n. 0)"

definition no_hooks :: hooks where
  "no_hooks = \<lparr> h_options_onFinish = None, h_onFinish = None,
                 h_options_onUpdate = None, h_onUpdate = None \<rparr>"

text \<open>Particles that live two seconds and have nothing else configured.\<close>

definition ttl2_options :: particle_options where
  "ttl2_options = default_particle_options\<lparr>o_ttl := Some 2, o_worldPosition := False\<rparr>"

definition ttl2_particle :: particle where
  "ttl2_particle =
     \<lparr> p_age = 0, p_finished = False, p_gravityX = None, p_gravityY = None, p_gravityZ = None,
       p_velocity = Some (Vector3 0 0 0), p_acceleration = None, p_position = Vector3 0 0 0,
       p_ttl = 2, p_alpha = None, p_startAlpha = None, p_endAlpha = None,
       p_startAlphaChangeAt = 0, p_colorize = False, p_color = None, p_startColor = None,
       p_endColor = None, p_startColorChangeAt = 0, p_size = None, p_startSize = None,
       p_endSize = None, p_startSizeChangeAt = 0, p_rotation = None, p_rotationSpeed = None,
       p_startWorldPosition = None \<rparr>"

text \<open>A particle that moves: a velocity, gravity along y and an acceleration along z.\<close>

definition falling_particle :: particle where
  "falling_particle =
     ttl2_particle\<lparr>p_velocity := Some (Vector3 1 0 0), p_gravityY := Some (- 10),
                   p_acceleration := Some (Vector3 0 0 2)\<rparr>"

text \<open>Particles that keep their world position, placed at an offset from the system.\<close>

definition locked_options :: particle_options where
  "locked_options =
     default_particle_options\<lparr>o_ttl := Some 2, o_offset := Some (Vec (Vector3 1 2 3))\<rparr>"

definition locked_particle :: particle where
  "locked_particle = ttl2_particle\<lparr>p_position := Vector3 1 2 3\<rparr>"

text \<open>
  Particles with a constant alpha of 0, as the constructor leaves the options (the flags
  set), and the particle a reset makes of them.
\<close>

definition zero_alpha_options :: particle_options where
  "zero_alpha_options = set_flags (default_particle_options\<lparr>o_alpha := Some (Num 0)\<rparr>)"

definition zero_alpha_particle :: particle where
  "zero_alpha_particle = ttl2_particle\<lparr>p_ttl := 1, p_alpha := Some 0\<rparr>"

text \<open>
  An emitter with a burst of 10 and a decay threshold of 4 seconds but no interval policy,
  before its first update; and one that also spawns 6 particles at every interval, its
  countdown run out.
\<close>

definition burst_emitter :: emitter where
  "burst_emitter =
     \<lparr> e_onSpawnBurst = Some (Num 10), e_onInterval = None, e_interval = Num 1,
       e_detoretingMinTtl = Some 4, e_age = 0, e_timeToSpawn = 0 \<rparr>"

definition interval_emitter :: emitter where
  "interval_emitter = burst_emitter\<lparr>e_onInterval := Some (Num 6)\<rparr>"

definition burst_options :: emitter_options where
  "burst_options =
     \<lparr> eo_onSpawnBurst = Some (Num 10), eo_onInterval = None, eo_interval = None,
       eo_detoretingMinTtl = Some 4 \<rparr>"

text \<open>
  Options that give a constant size as a plain number together with a start and an end
  size, and options that give a constant colour as a colour object together with a start
  and an end colour.
\<close>

definition size_clash_options :: options where
  "size_clash_options =
     \<lparr> opt_particles = Some (default_particle_options
         \<lparr>o_size := Some (Num 5), o_startSize := Some (Num 1), o_endSize := Some (Num 2)\<rparr>),
       opt_system = Some (default_system_options\<lparr>so_particlesCount := Some 1\<rparr>) \<rparr>"

definition color_clash_options :: options where
  "color_clash_options =
     \<lparr> opt_particles = Some (default_particle_options
         \<lparr>o_color := Some (Col (Color 1 0 0)), o_startColor := Some (Col (Color 0 1 0)),
          o_endColor := Some (Col (Color 0 0 1))\<rparr>),
       opt_system = Some (default_system_options\<lparr>so_particlesCount := Some 1\<rparr>) \<rparr>"

text \<open>A system of two particles that live two seconds, with the burst emitter.\<close>

definition small_options :: options where
  "small_options =
     \<lparr> opt_particles = Some ttl2_options,
       opt_system = Some \<lparr> so_particlesCount = Some 2, so_ttl = Some 10, so_speed = None,
                           so_emitters = [burst_emitter] \<rparr> \<rparr>"

section \<open>Evaluation\<close>

text \<open>
  The square root of a real number cannot be computed by generated code. Only the sphere
  randomizer takes one (to normalize its direction); code generated from the model
  stops there and runs every other path.
\<close>

lemma v_length_code [code]:
  "v_length a = Code.abort (STR ''square root'') (\<lambda>_. v_length a)"
  by simp

section \<open>One update of a particle\<close>

lemma start_update_shape:
  assumes "start_update opts wp i p = Inr (p1, w1)"
  shows "p1 = p\<lparr>p_startWorldPosition :=
            (if p_age p = 0 \<and> o_worldPosition opts then Some wp else p_startWorldPosition p)\<rparr>"
  using assms by (auto simp: start_update_def sum_bind_def split: if_splits sum.splits)

lemma animate_total: "lerp_safe p \<Longrightarrow> \<exists>w. animate i p = Inr w"
  by (auto simp: animate_def lerp_safe_def sum_bind_def split: option.splits)

lemma start_update_total: "lerp_safe p \<Longrightarrow> \<exists>p1 w1. start_update opts wp i p = Inr (p1, w1)"
  using animate_total[of p i] by (auto simp: start_update_def sum_bind_def)

lemma rotate_shape:
  "fst (rotate i dt p) = p\<lparr>p_rotation :=
      (if opt_truthy (p_rotationSpeed p)
       then Some (ToNumber (p_rotation p) + ToNumber (p_rotationSpeed p) * dt)
       else p_rotation p)\<rparr>"
  by (simp add: rotate_def Let_def)

lemma integrate_position_shape:
  "integrate_position dt p =
     p\<lparr>p_velocity := map_option (with_gravity p dt) (p_velocity p),
       p_position :=
         (case p_velocity p of
            None \<Rightarrow> p_position p
          | Some v \<Rightarrow> v_add (p_position p) (v_multiplyScalar (with_gravity p dt v) dt))\<rparr>"
  by (cases "p_velocity p")
     (simp_all add: integrate_position_def Let_def v_add_def v_multiplyScalar_def)

lemma integrate_velocity_shape:
  "integrate_velocity dt p =
     p\<lparr>p_velocity :=
         (case p_acceleration p of
            None \<Rightarrow> p_velocity p
          | Some a \<Rightarrow> map_option (\<lambda>v. v_add v (v_multiplyScalar a dt)) (p_velocity p))\<rparr>"
  by (cases "p_acceleration p"; cases "p_velocity p")
     (simp_all add: integrate_velocity_def v_add_def v_multiplyScalar_def)

lemma Particle_update_unfold:
  assumes "\<not> p_finished p" "Particle_update opts wp i dt p = Inr (p', w)"
  obtains p1 w1 where "start_update opts wp i p = Inr (p1, w1)"
    "p' = check_done (run_hook (o_onUpdate opts) (advance_age dt
            (integrate_velocity dt (integrate_position dt (fst (rotate i dt p1))))))"
    "w = w1 @ snd (rotate i dt p1) @
          [SetPosition i (positionToSet wp (integrate_position dt (fst (rotate i dt p1))))]"
  using assms
  by (auto simp: Particle_update_def sum_bind_def Let_def split: sum.splits prod.splits)

lemma Particle_update_total:
  assumes "lerp_safe p"
  shows "\<exists>p' w. Particle_update opts wp i dt p = Inr (p', w)"
proof (cases "p_finished p")
  case True
  then show ?thesis by (simp add: Particle_update_def)
next
  case False
  obtain p1 w1 where "start_update opts wp i p = Inr (p1, w1)"
    using start_update_total[OF assms] by blast
  then show ?thesis using False
    by (simp add: Particle_update_def sum_bind_def Let_def split: prod.splits)
qed

lemma keeps_age_None: "keeps_age None"
  by (simp add: keeps_age_def run_hook_def)

lemma update_age:
  assumes "Particle_update opts wp i dt p = Inr (p', w)" "keeps_age (o_onUpdate opts)"
    "\<not> p_finished p"
  shows "p_age p' = min 1 (p_age p + dt / p_ttl p)"
    "p_finished p' = (p_age p + dt / p_ttl p > 1)"
    "p_ttl p' = p_ttl p"
proof -
  from assms(3,1) obtain p1 w1 where s: "start_update opts wp i p = Inr (p1, w1)"
    and p': "p' = check_done (run_hook (o_onUpdate opts) (advance_age dt
            (integrate_velocity dt (integrate_position dt (fst (rotate i dt p1))))))"
    by (rule Particle_update_unfold)
  note sh = start_update_shape[OF s]
  let ?q = "advance_age dt (integrate_velocity dt (integrate_position dt (fst (rotate i dt p1))))"
  have q: "p_age ?q = p_age p + dt / p_ttl p" "p_ttl ?q = p_ttl p" "p_finished ?q = p_finished p"
    unfolding advance_age_def integrate_velocity_shape integrate_position_shape rotate_shape
    by (simp_all add: sh)
  have h: "p_age (run_hook (o_onUpdate opts) ?q) = p_age ?q"
    "p_ttl (run_hook (o_onUpdate opts) ?q) = p_ttl ?q"
    "p_finished (run_hook (o_onUpdate opts) ?q) = p_finished ?q"
    using assms(2) unfolding keeps_age_def by blast+
  show "p_age p' = min 1 (p_age p + dt / p_ttl p)"
    "p_finished p' = (p_age p + dt / p_ttl p > 1)"
    "p_ttl p' = p_ttl p"
    using assms(3) h q unfolding p' check_done_def by auto
qed

text \<open>Without an update hook, one update leaves these fields as they were.\<close>

lemma update_static:
  assumes "Particle_update opts wp i dt p = Inr (p', w)" "o_onUpdate opts = None"
  shows "p_startColor p' = p_startColor p \<and> p_endColor p' = p_endColor p \<and>
     p_gravityX p' = p_gravityX p \<and> p_gravityY p' = p_gravityY p \<and>
     p_gravityZ p' = p_gravityZ p \<and> p_acceleration p' = p_acceleration p"
proof (cases "p_finished p")
  case True
  then show ?thesis using assms(1) by (simp add: Particle_update_def)
next
  case False
  from False assms(1) obtain p1 w1 where s: "start_update opts wp i p = Inr (p1, w1)"
    and p': "p' = check_done (run_hook (o_onUpdate opts) (advance_age dt
            (integrate_velocity dt (integrate_position dt (fst (rotate i dt p1))))))"
    by (rule Particle_update_unfold)
  note sh = start_update_shape[OF s]
  show ?thesis
    unfolding p' assms(2) run_hook_def check_done_def advance_age_def integrate_velocity_shape
      integrate_position_shape rotate_shape
    by (simp add: sh)
qed

lemma plain_step:
  assumes "o_onUpdate opts = None" "\<not> p_finished p" "lerp_safe p"
  shows "\<exists>p' w. Particle_update opts wp i dt p = Inr (p', w) \<and>
     p_age p' = min 1 (p_age p + dt / p_ttl p) \<and>
     p_finished p' = (p_age p + dt / p_ttl p > 1) \<and>
     p_ttl p' = p_ttl p \<and> lerp_safe p'"
proof -
  obtain p' w where u: "Particle_update opts wp i dt p = Inr (p', w)"
    using Particle_update_total[OF assms(3)] by blast
  have k: "keeps_age (o_onUpdate opts)" by (simp add: assms(1) keeps_age_None)
  show ?thesis
    using u update_age[OF u k assms(2)] update_static[OF u assms(1)] assms(3)
    by (auto simp: lerp_safe_def)
qed

section \<open>A life of two seconds in steps of half a second\<close>

lemma half_second_steps:
  assumes "o_onUpdate options = None" "p_ttl p = 2" "p_age p = 0" "\<not> p_finished p"
    "lerp_safe p"
  shows "\<exists>p4 p5 w5.
     Particle_updates options index [(a1, 1/2), (a2, 1/2), (a3, 1/2), (a4, 1/2)] p = Inr p4 \<and>
     p_age p4 = 1 \<and> \<not> p_finished p4 \<and>
     Particle_update options a5 index (1/2) p4 = Inr (p5, w5) \<and> p_finished p5 \<and> p_age p5 = 1"
proof -
  obtain p1 w1 where 1: "Particle_update options a1 index (1/2) p = Inr (p1, w1)"
    "p_age p1 = 1/4" "\<not> p_finished p1" "p_ttl p1 = 2" "lerp_safe p1"
    using plain_step[OF assms(1,4,5), of a1 index "1/2"] assms(2,3) by auto
  obtain p2 w2 where 2: "Particle_update options a2 index (1/2) p1 = Inr (p2, w2)"
    "p_age p2 = 1/2" "\<not> p_finished p2" "p_ttl p2 = 2" "lerp_safe p2"
    using plain_step[OF assms(1) 1(3,5), of a2 index "1/2"] 1(2,4) by auto
  obtain p3 w3 where 3: "Particle_update options a3 index (1/2) p2 = Inr (p3, w3)"
    "p_age p3 = 3/4" "\<not> p_finished p3" "p_ttl p3 = 2" "lerp_safe p3"
    using plain_step[OF assms(1) 2(3,5), of a3 index "1/2"] 2(2,4) by auto
  obtain p4 w4 where 4: "Particle_update options a4 index (1/2) p3 = Inr (p4, w4)"
    "p_age p4 = 1" "\<not> p_finished p4" "p_ttl p4 = 2" "lerp_safe p4"
    using plain_step[OF assms(1) 3(3,5), of a4 index "1/2"] 3(2,4) by auto
  obtain p5 w5 where 5: "Particle_update options a5 index (1/2) p4 = Inr (p5, w5)"
    "p_age p5 = 1" "p_finished p5"
    using plain_step[OF assms(1) 4(3,5), of a5 index "1/2"] 4(2,4) by auto
  have "Particle_updates options index [(a1, 1/2), (a2, 1/2), (a3, 1/2), (a4, 1/2)] p = Inr p4"
    by (simp add: sum_bind_def 1(1) 2(1) 3(1) 4(1))
  then show ?thesis using 4 5 by blast
qed

lemma reset_ttl2: "Particle_reset ttl2_options g = Inr (ttl2_particle, g)"
  by (simp add: Particle_reset_def ttl2_options_def ttl2_particle_def default_particle_options_def
      getConstOrRandomVector_def getRandomWithSpread_def opt_truthy_def opt_or_def js_or_def
      truthy_def reset_triple_def reset_colors_def reset_rotation_def sum_bind_def run_hook_def
      opt_or_opt_def)

lemma ttl2_facts:
  "o_onUpdate ttl2_options = None" "o_onSpawn ttl2_options = None" "p_ttl ttl2_particle = 2"
  "p_age ttl2_particle = 0" "\<not> p_finished ttl2_particle" "lerp_safe ttl2_particle"
  "o_ttl ttl2_options = Some 2" "o_ttlExtra ttl2_options = None"
  by (simp_all add: ttl2_options_def ttl2_particle_def default_particle_options_def lerp_safe_def)

text \<open>
  C2, as the code has it. A particle with a time to live of 2.0, no update hook and
  nothing that makes an update raise, updated with a step of 0.5: after the 4th update its
  age is exactly 1 and it is not finished, because the test is \<open>age > 1\<close>; the 5th update
  sets the finished flag and leaves the age at 1.
\<close>

theorem ttl2_finishes_on_fifth_update:
  assumes "o_onUpdate options = None" "p_ttl p = 2" "p_age p = 0" "\<not> p_finished p"
    "lerp_safe p"
  shows "\<exists>p4 p5 w5.
     Particle_updates options index [(a1, 1/2), (a2, 1/2), (a3, 1/2), (a4, 1/2)] p = Inr p4 \<and>
     p_age p4 = 1 \<and> \<not> p_finished p4 \<and>
     Particle_update options a5 index (1/2) p4 = Inr (p5, w5) \<and> p_finished p5 \<and> p_age p5 = 1"
  using assms by (rule half_second_steps)

theorem ttl2_finishes_on_fifth_update_witness:
  "\<exists>p4 p5 w5.
     Particle_updates ttl2_options 0
       [(origin, 1/2), (origin, 1/2), (origin, 1/2), (origin, 1/2)] ttl2_particle = Inr p4 \<and>
     p_age p4 = 1 \<and> \<not> p_finished p4 \<and>
     Particle_update ttl2_options origin 0 (1/2) p4 = Inr (p5, w5) \<and>
     p_finished p5 \<and> p_age p5 = 1"
  using ttl2_finishes_on_fifth_update
          [of ttl2_options ttl2_particle 0 origin origin origin origin origin]
  by (simp add: ttl2_facts)

text \<open>
  C2 as it is stated fails: the particle a reset makes from \<open>ttl = 2\<close> is not finished
  after four updates of 0.5.
\<close>

theorem ttl2_not_finished_after_four_updates:
  "\<not> (\<exists>p4. Particle_updates ttl2_options 0
          [(origin, 1/2), (origin, 1/2), (origin, 1/2), (origin, 1/2)] ttl2_particle = Inr p4 \<and>
        p_finished p4 \<and> p_age p4 = 1)"
  using half_second_steps[of ttl2_options ttl2_particle 0 origin origin origin origin origin]
  by (auto simp: ttl2_facts)

section \<open>The age of a particle\<close>

lemma Math_random_unit:
  assumes "unit_rng g" "Math_random g = (u, g')"
  shows "0 \<le> u \<and> u < 1 \<and> unit_rng g'"
  using assms by (auto simp: unit_rng_def Math_random_def)

lemma getRandomBetween_unit:
  assumes "unit_rng g"
  shows "unit_rng (snd (getRandomBetween a b g))"
  using Math_random_unit[OF assms] by (auto simp: getRandomBetween_def split: prod.splits)

lemma randMinusToOne_unit:
  assumes "unit_rng g"
  shows "unit_rng (snd (randMinusToOne g))"
  using Math_random_unit[OF assms] by (auto simp: randMinusToOne_def split: prod.splits)

lemma getRandomVectorBetween_unit:
  assumes "unit_rng g"
  shows "unit_rng (snd (getRandomVectorBetween a b g))"
proof -
  obtain x g1 where 1: "getRandomBetween (vx a) (vx b) g = (x, g1)" by force
  obtain y g2 where 2: "getRandomBetween (vy a) (vy b) g1 = (y, g2)" by force
  obtain z g3 where 3: "getRandomBetween (vz a) (vz b) g2 = (z, g3)" by force
  have "unit_rng g1" using getRandomBetween_unit[OF assms, of "vx a" "vx b"] 1 by simp
  then have "unit_rng g2" using getRandomBetween_unit[of g1 "vy a" "vy b"] 2 by simp
  then have "unit_rng g3" using getRandomBetween_unit[of g2 "vz a" "vz b"] 3 by simp
  then show ?thesis by (simp add: getRandomVectorBetween_def 1 2 3)
qed

lemma sphere_generate_unit:
  assumes "unit_rng g"
  shows "unit_rng (snd (sphere_generate a b c d e g))"
proof -
  obtain x g1 where 1: "randMinusToOne g = (x, g1)" by force
  obtain y g2 where 2: "randMinusToOne g1 = (y, g2)" by force
  obtain z g3 where 3: "randMinusToOne g2 = (z, g3)" by force
  obtain r g4 where 4: "getRandomBetween b a g3 = (r, g4)" by force
  have "unit_rng g1" using randMinusToOne_unit[OF assms] 1 by simp
  then have "unit_rng g2" using randMinusToOne_unit[of g1] 2 by simp
  then have "unit_rng g3" using randMinusToOne_unit[of g2] 3 by simp
  then have "unit_rng g4" using getRandomBetween_unit[of g3 b a] 4 by simp
  then show ?thesis by (simp add: sphere_generate_def 1 2 3 4 Let_def)
qed

lemma vec_generate_unit:
  assumes "unit_rng g"
  shows "unit_rng (snd (vec_generate src g))"
  using assms by (cases src) (simp_all add: getRandomVectorBetween_unit sphere_generate_unit)

lemma getConstOrRandomVector_unit:
  assumes "unit_rng g"
  shows "unit_rng (snd (getConstOrRandomVector src flag g))"
proof (cases src)
  case None
  then show ?thesis using assms by (simp add: getConstOrRandomVector_def)
next
  case (Some v)
  obtain x g1 where 1: "vec_generate v g = (x, g1)" by force
  show ?thesis
    using vec_generate_unit[OF assms, of v] by (simp add: getConstOrRandomVector_def Some 1)
qed

text \<open>The time to live a reset resolves is positive when the configured durations are not negative.\<close>

lemma ttl_positive:
  assumes "unit_rng g" "nonneg ttl" "nonneg extra"
  shows "0 < js_or (fst (getRandomWithSpread (opt_or ttl 1) extra g)) 1"
proof -
  have base: "0 < opt_or ttl 1"
    using assms(2) by (auto simp: opt_or_def nonneg_def js_or_def truthy_def split: option.splits)
  obtain u g' where m: "Math_random g = (u, g')" by force
  have u: "0 \<le> u" using Math_random_unit[OF assms(1) m] by simp
  have "0 < fst (getRandomWithSpread (opt_or ttl 1) extra g)"
  proof (cases "opt_truthy extra")
    case False
    then show ?thesis using base by (simp add: getRandomWithSpread_def)
  next
    case True
    then obtain x where x: "extra = Some x" "0 \<le> x"
      using assms(3) by (auto simp: opt_truthy_def nonneg_def split: option.splits)
    have "0 \<le> u * x" using u x(2) by simp
    then show ?thesis using True base x
      by (simp add: getRandomWithSpread_def getRandomBetween_def m ToNumber_def
            add_pos_nonneg add.commute)
  qed
  then show ?thesis by (simp add: js_or_def truthy_def)
qed

lemma Particle_reset_shape:
  assumes "Particle_reset options g = Inr (p, g')"
  obtains q g3 where "p = run_hook (o_onSpawn options) q" "p_age q = 0" "\<not> p_finished q"
    "p_startWorldPosition q = None"
    "p_ttl q =
       js_or (fst (getRandomWithSpread (opt_or (o_ttl options) 1) (o_ttlExtra options) g3)) 1"
    "unit_rng g \<longrightarrow> unit_rng g3"
proof -
  let ?g1 = "snd (getConstOrRandomVector (o_velocity options) False g)"
  let ?g2 = "snd (getConstOrRandomVector (o_acceleration options) True ?g1)"
  let ?g3 = "snd (getConstOrRandomVector (o_offset options) False ?g2)"
  have u: "unit_rng g \<longrightarrow> unit_rng ?g3"
    by (intro impI getConstOrRandomVector_unit)
  from assms obtain q where "p = run_hook (o_onSpawn options) q" "p_age q = 0"
    "\<not> p_finished q" "p_startWorldPosition q = None"
    "p_ttl q =
       js_or (fst (getRandomWithSpread (opt_or (o_ttl options) 1) (o_ttlExtra options) ?g3)) 1"
    by (auto simp: Particle_reset_def sum_bind_def Let_def split: prod.splits sum.splits)
  then show ?thesis using that u by blast
qed

lemma run_ages:
  assumes "keeps_age (o_onUpdate opts)" "0 < p_ttl p" "0 \<le> p_age p" "p_age p \<le> 1"
    "\<forall>(a, dt) \<in> set steps. 0 \<le> dt"
  shows "sorted (map p_age (Particle_run opts i steps p)) \<and>
     (\<forall>q \<in> set (Particle_run opts i steps p). p_age p \<le> p_age q \<and> p_age q \<le> 1)"
  using assms(2-)
proof (induction steps arbitrary: p)
  case Nil
  then show ?case by simp
next
  case (Cons st steps)
  obtain a dt where st: "st = (a, dt)" by force
  have dt: "0 \<le> dt" using Cons.prems(4) st by auto
  show ?case
  proof (cases "Particle_update opts a i dt p")
    case (Inl e)
    then show ?thesis using Cons.prems st by simp
  next
    case (Inr r)
    obtain p' w where r: "r = (p', w)" by force
    have u: "Particle_update opts a i dt p = Inr (p', w)" using Inr r by simp
    have step: "p_age p \<le> p_age p' \<and> p_age p' \<le> 1 \<and> p_ttl p' = p_ttl p"
    proof (cases "p_finished p")
      case True
      then show ?thesis using u Cons.prems by (simp add: Particle_update_def)
    next
      case False
      have "0 \<le> dt / p_ttl p" using dt Cons.prems(1) by simp
      then show ?thesis using update_age[OF u assms(1) False] Cons.prems by auto
    qed
    have ih: "sorted (map p_age (Particle_run opts i steps p')) \<and>
      (\<forall>q \<in> set (Particle_run opts i steps p'). p_age p' \<le> p_age q \<and> p_age q \<le> 1)"
      using Cons.IH[of p'] step Cons.prems by auto
    show ?thesis using ih step Cons.prems(2,3) by (auto simp: st u)
  qed
qed

text \<open>
  C4. A life starts with a reset; its durations are not negative, \<open>Math.random\<close> returns
  numbers in \<open>[0, 1)\<close> and the hooks leave age, time to live and finished flag alone. Then
  the reset leaves the age at exactly 0, and along every run of updates with time steps
  that are not negative the age never decreases and stays within \<open>[0, 1]\<close>.
\<close>

theorem age_monotone_in_unit_interval:
  assumes "Particle_reset options g = Inr (p0, g')"
    "unit_rng g" "nonneg (o_ttl options)" "nonneg (o_ttlExtra options)"
    "keeps_age (o_onSpawn options)" "keeps_age (o_onUpdate options)"
    "\<forall>(systemPos, deltaTime) \<in> set steps. 0 \<le> deltaTime"
  shows "p_age p0 = 0 \<and> sorted (map p_age (Particle_run options index steps p0)) \<and>
     (\<forall>q \<in> set (Particle_run options index steps p0). 0 \<le> p_age q \<and> p_age q \<le> 1)"
proof -
  from assms(1) obtain q g3 where q: "p0 = run_hook (o_onSpawn options) q" "p_age q = 0"
    "\<not> p_finished q" "p_startWorldPosition q = None"
    "p_ttl q =
       js_or (fst (getRandomWithSpread (opt_or (o_ttl options) 1) (o_ttlExtra options) g3)) 1"
    "unit_rng g \<longrightarrow> unit_rng g3"
    by (rule Particle_reset_shape)
  have a0: "p_age p0 = 0" and t0: "p_ttl p0 = p_ttl q"
    using assms(5) q(1,2) unfolding keeps_age_def by auto
  have tp: "0 < p_ttl p0"
    unfolding t0 q(5) using ttl_positive[OF q(6)[rule_format, OF assms(2)] assms(3,4)] .
  show ?thesis using run_ages[OF assms(6) tp _ _ assms(7), of index] a0 by auto
qed

theorem age_monotone_in_unit_interval_witness:
  "p_age ttl2_particle = 0 \<and>
   map p_age (Particle_run ttl2_options 0 [(origin, 1/2), (origin, 1), (origin, 1)] ttl2_particle)
     = [0, 1/4, 3/4, 1] \<and>
   sorted (map p_age
     (Particle_run ttl2_options 0 [(origin, 1/2), (origin, 1), (origin, 1)] ttl2_particle)) \<and>
   list_all (\<lambda>q. 0 \<le> p_age q \<and> p_age q \<le> 1)
     (Particle_run ttl2_options 0 [(origin, 1/2), (origin, 1), (origin, 1)] ttl2_particle)"
proof -
  have r: "map p_age
      (Particle_run ttl2_options 0 [(origin, 1/2), (origin, 1), (origin, 1)] ttl2_particle)
     = [0, 1/4, 3/4, 1]"
    by (simp add: Particle_update_def start_update_def first_update_def animate_def sum_bind_def
      rotate_def integrate_position_def integrate_velocity_def advance_age_def check_done_def
      run_hook_def positionToSet_def with_gravity_def add_gravity_def opt_truthy_def
      ttl2_options_def ttl2_particle_def default_particle_options_def origin_def Let_def)
  have "unit_rng still" by (simp add: unit_rng_def still_def)
  then show ?thesis
    using age_monotone_in_unit_interval
            [of ttl2_options still ttl2_particle still
                "[(origin, 1/2), (origin, 1), (origin, 1)]" 0] r
    by (simp add: reset_ttl2 ttl2_facts nonneg_def keeps_age_None list_all_iff)
qed

section \<open>Kinematics and the world-position lock\<close>

lemma add_gravity_plain: "add_gravity g dt x = x + ToNumber g * dt"
  by (auto simp: add_gravity_def opt_truthy_def truthy_def ToNumber_def split: option.splits)

lemma with_gravity_plain:
  "with_gravity p dt v =
     v_add v (v_multiplyScalar
       (Vector3 (ToNumber (p_gravityX p)) (ToNumber (p_gravityY p)) (ToNumber (p_gravityZ p))) dt)"
  by (simp add: with_gravity_def add_gravity_plain v_add_def v_multiplyScalar_def)

lemma Particle_update_plain:
  assumes "\<not> p_finished p" "Particle_update opts wp i dt p = Inr (p', w)"
  defines "p1 \<equiv> p\<lparr>p_startWorldPosition :=
            (if p_age p = 0 \<and> o_worldPosition opts then Some wp else p_startWorldPosition p)\<rparr>"
  shows "p' = check_done (run_hook (o_onUpdate opts) (advance_age dt
            (integrate_velocity dt (integrate_position dt (fst (rotate i dt p1))))))"
    "\<exists>ws. w = ws @
          [SetPosition i (positionToSet wp (integrate_position dt (fst (rotate i dt p1))))]"
proof -
  from assms(1,2) obtain q1 w1 where s: "start_update opts wp i p = Inr (q1, w1)"
    and p': "p' = check_done (run_hook (o_onUpdate opts) (advance_age dt
            (integrate_velocity dt (integrate_position dt (fst (rotate i dt q1))))))"
    and w: "w = w1 @ snd (rotate i dt q1) @
          [SetPosition i (positionToSet wp (integrate_position dt (fst (rotate i dt q1))))]"
    by (rule Particle_update_unfold)
  have q1: "q1 = p1" using start_update_shape[OF s] by (simp add: p1_def)
  show "p' = check_done (run_hook (o_onUpdate opts) (advance_age dt
            (integrate_velocity dt (integrate_position dt (fst (rotate i dt p1))))))"
    using p' q1 by simp
  show "\<exists>ws. w = ws @
          [SetPosition i (positionToSet wp (integrate_position dt (fst (rotate i dt p1))))]"
    using w q1 by (metis append.assoc)
qed

lemma with_gravity_cong:
  "p_gravityX q = p_gravityX p \<Longrightarrow> p_gravityY q = p_gravityY p \<Longrightarrow>
   p_gravityZ q = p_gravityZ p \<Longrightarrow> with_gravity q dt v = with_gravity p dt v"
  by (simp add: with_gravity_def)

text \<open>The state of a particle that has a velocity, after the kinematics of one update.\<close>

lemma kinematics:
  fixes i :: nat and dt :: real and p :: particle
  assumes "p_velocity p = Some v"
  defines "r \<equiv> fst (rotate i dt p)"
  defines "V \<equiv> with_gravity p dt v"
  defines "P \<equiv> v_add (p_position p) (v_multiplyScalar V dt)"
  shows "p_position (integrate_position dt r) = P"
    "p_startWorldPosition (integrate_position dt r) = p_startWorldPosition p"
    "p_position (advance_age dt (integrate_velocity dt (integrate_position dt r))) = P"
    "p_velocity (advance_age dt (integrate_velocity dt (integrate_position dt r))) =
       Some (case p_acceleration p of None \<Rightarrow> V | Some a \<Rightarrow> v_add V (v_multiplyScalar a dt))"
proof -
  have r: "p_velocity r = Some v" "p_position r = p_position p"
    "p_gravityX r = p_gravityX p" "p_gravityY r = p_gravityY p" "p_gravityZ r = p_gravityZ p"
    "p_acceleration r = p_acceleration p" "p_startWorldPosition r = p_startWorldPosition p"
    by (simp_all add: r_def rotate_shape assms(1))
  have g: "with_gravity r dt v = V"
    unfolding V_def by (rule with_gravity_cong) (simp_all add: r)
  let ?ip = "integrate_position dt r"
  have ip: "p_position ?ip = P" "p_velocity ?ip = Some V"
    "p_acceleration ?ip = p_acceleration p" "p_startWorldPosition ?ip = p_startWorldPosition p"
    by (simp_all add: integrate_position_shape r g P_def)
  show "p_position ?ip = P" "p_startWorldPosition ?ip = p_startWorldPosition p"
    using ip by simp_all
  show "p_position (advance_age dt (integrate_velocity dt ?ip)) = P"
    by (simp add: advance_age_def integrate_velocity_shape ip)
  show "p_velocity (advance_age dt (integrate_velocity dt ?ip)) =
       Some (case p_acceleration p of None \<Rightarrow> V | Some a \<Rightarrow> v_add V (v_multiplyScalar a dt))"
    by (simp add: advance_age_def integrate_velocity_shape ip split: option.splits)
qed

text \<open>
  C6. In an update of a particle that is not finished and has a velocity \<open>v\<close>: the
  position pushed to the system, and the position stored, is the old position plus
  \<open>(v + gravity * dt) * dt\<close>, with no term of the acceleration in it (an anchor only
  shifts the pushed copy); the velocity handed on to the update hook, and so to the next
  update, is \<open>v + gravity * dt + acceleration * dt\<close>. A missing gravity component or
  acceleration adds nothing.
\<close>

theorem gravity_before_position_acceleration_after:
  assumes "\<not> p_finished p" "p_velocity p = Some v"
    "Particle_update options systemPos index deltaTime p = Inr (p', w)"
  shows
    "let G = Vector3 (ToNumber (p_gravityX p)) (ToNumber (p_gravityY p)) (ToNumber (p_gravityZ p));
         V = v_add v (v_multiplyScalar G deltaTime);
         P = v_add (p_position p) (v_multiplyScalar V deltaTime)
     in \<exists>q ws.
          w = ws @ [SetPosition index
                     (case (if p_age p = 0 \<and> o_worldPosition options then Some systemPos
                            else p_startWorldPosition p) of
                        None \<Rightarrow> P
                      | Some anchor \<Rightarrow> v_sub P (v_sub systemPos anchor))] \<and>
          p' = check_done (run_hook (o_onUpdate options) q) \<and>
          p_position q = P \<and>
          p_velocity q =
            Some (case p_acceleration p of
                    None \<Rightarrow> V
                  | Some a \<Rightarrow> v_add V (v_multiplyScalar a deltaTime))"
proof -
  define A where "A = (if p_age p = 0 \<and> o_worldPosition options then Some systemPos
             else p_startWorldPosition p)"
  define p1 where "p1 = p\<lparr>p_startWorldPosition := A\<rparr>"
  define r where "r = fst (rotate index deltaTime p1)"
  define q where "q = advance_age deltaTime (integrate_velocity deltaTime
              (integrate_position deltaTime r))"
  define V where "V = with_gravity p deltaTime v"
  define P where "P = v_add (p_position p) (v_multiplyScalar V deltaTime)"
  note pl = Particle_update_plain[OF assms(1,3), folded A_def, folded p1_def, folded r_def,
      folded q_def]
  have p1: "p_velocity p1 = Some v" "with_gravity p1 deltaTime v = V"
    "p_position p1 = p_position p" "p_acceleration p1 = p_acceleration p"
    "p_startWorldPosition p1 = A"
    by (simp_all add: p1_def assms(2) V_def with_gravity_def)
  note k = kinematics[OF p1(1), where i = index and dt = deltaTime, folded r_def, folded q_def,
      unfolded p1(2-5), folded P_def]
  obtain ws where ws: "w = ws @ [SetPosition index
      (positionToSet systemPos (integrate_position deltaTime r))]"
    using pl(2) by blast
  have push: "positionToSet systemPos (integrate_position deltaTime r)
     = (case A of None \<Rightarrow> P | Some anchor \<Rightarrow> v_sub P (v_sub systemPos anchor))"
    by (simp add: positionToSet_def k(1,2) split: option.splits)
  have "\<exists>q ws.
          w = ws @ [SetPosition index
                     (case A of None \<Rightarrow> P | Some anchor \<Rightarrow> v_sub P (v_sub systemPos anchor))] \<and>
          p' = check_done (run_hook (o_onUpdate options) q) \<and>
          p_position q = P \<and>
          p_velocity q =
            Some (case p_acceleration p of
                    None \<Rightarrow> V
                  | Some a \<Rightarrow> v_add V (v_multiplyScalar a deltaTime))"
    using ws pl(1) k(3,4) push by auto
  then show ?thesis
    unfolding Let_def P_def V_def A_def with_gravity_plain by simp
qed


theorem gravity_before_position_acceleration_after_witness:
  "\<exists>p' w q ws.
     Particle_update ttl2_options origin 0 (1/2) falling_particle = Inr (p', w) \<and>
     w = ws @ [SetPosition 0 (Vector3 (1/2) (- 5/2) 0)] \<and>
     p' = check_done (run_hook (o_onUpdate ttl2_options) q) \<and>
     p_position q = Vector3 (1/2) (- 5/2) 0 \<and>
     p_velocity q = Some (Vector3 1 (- 5) 1)"
proof -
  have "lerp_safe falling_particle"
    by (simp add: lerp_safe_def falling_particle_def ttl2_particle_def)
  then obtain p' w where
    u: "Particle_update ttl2_options origin 0 (1/2) falling_particle = Inr (p', w)"
    using Particle_update_total by blast
  have f: "\<not> p_finished falling_particle" "p_velocity falling_particle = Some (Vector3 1 0 0)"
    by (simp_all add: falling_particle_def ttl2_particle_def)
  show ?thesis
    using gravity_before_position_acceleration_after[OF f u] u
    by (simp add: falling_particle_def ttl2_particle_def ttl2_options_def
          default_particle_options_def ToNumber_def v_add_def v_multiplyScalar_def Let_def)
qed

text \<open>A particle at rest stays where it is, and keeps its anchor.\<close>

lemma anchored_step:
  assumes "o_onUpdate opts = None" "Particle_update opts wp i dt p = Inr (p', w)"
    "0 < p_ttl p" "0 < dt" "p_startWorldPosition p = Some anchor" "0 < p_age p"
  shows "p_startWorldPosition p' = Some anchor \<and> 0 < p_age p' \<and> p_ttl p' = p_ttl p \<and>
     (at_rest p \<longrightarrow> at_rest p' \<and> p_position p' = p_position p)"
proof (cases "p_finished p")
  case True
  then show ?thesis using assms by (simp add: Particle_update_def)
next
  case False
  note pl = Particle_update_plain[OF False assms(2)]
  have a: "(if p_age p = 0 \<and> o_worldPosition opts then Some wp else p_startWorldPosition p)
      = Some anchor" using assms(5,6) by simp
  have p1: "p\<lparr>p_startWorldPosition := Some anchor\<rparr> = p" using assms(5) by simp
  let ?q = "advance_age dt (integrate_velocity dt (integrate_position dt (fst (rotate i dt p))))"
  have p': "p' = check_done ?q" using pl(1) unfolding a p1 by (simp add: assms(1) run_hook_def)
  have q: "p_startWorldPosition ?q = Some anchor" "p_age ?q = p_age p + dt / p_ttl p"
    "p_ttl ?q = p_ttl p"
    "p_gravityX ?q = p_gravityX p" "p_gravityY ?q = p_gravityY p" "p_gravityZ ?q = p_gravityZ p"
    "p_acceleration ?q = p_acceleration p"
    by (simp_all add: advance_age_def integrate_velocity_shape integrate_position_shape
          rotate_shape assms(5))
  have pos: "0 < dt / p_ttl p" using assms(3,4) by simp
  have rest: "at_rest p \<longrightarrow> p_velocity ?q = Some (Vector3 0 0 0) \<and> p_position ?q = p_position p"
  proof
    assume r: "at_rest p"
    then have v: "p_velocity p = Some (Vector3 0 0 0)" by (simp add: at_rest_def)
    have g: "with_gravity p dt (Vector3 0 0 0) = Vector3 0 0 0"
      using r by (simp add: at_rest_def with_gravity_def add_gravity_def)
    have acc: "p_acceleration p = None \<or> p_acceleration p = Some (Vector3 0 0 0)"
      using r by (simp add: at_rest_def)
    note k = kinematics[OF v, where i = i and dt = dt, unfolded g]
    have "p_position ?q = p_position p"
      using k(3) by (cases "p_position p") (simp add: v_add_def v_multiplyScalar_def)
    moreover have "p_velocity ?q = Some (Vector3 0 0 0)"
      using k(4) acc by (auto simp: v_add_def v_multiplyScalar_def)
    ultimately show "p_velocity ?q = Some (Vector3 0 0 0) \<and> p_position ?q = p_position p"
      by simp
  qed
  show ?thesis
    unfolding p' check_done_def using q pos assms(6) rest
    by (auto simp: at_rest_def)
qed

lemma anchored_run:
  assumes "o_onUpdate opts = None"
  shows "Particle_updates opts i steps p = Inr pk \<Longrightarrow> \<forall>(a, dt) \<in> set steps. 0 < dt \<Longrightarrow>
    0 < p_ttl p \<Longrightarrow> p_startWorldPosition p = Some anchor \<Longrightarrow> 0 < p_age p \<Longrightarrow>
    p_startWorldPosition pk = Some anchor \<and> 0 < p_age pk \<and>
      (at_rest p \<longrightarrow> at_rest pk \<and> p_position pk = p_position p)"
proof (induction steps arbitrary: p)
  case Nil
  then show ?case by simp
next
  case (Cons st steps)
  obtain a dt where st: "st = (a, dt)" by force
  from Cons.prems(1) obtain p' w where u: "Particle_update opts a i dt p = Inr (p', w)"
    and rest: "Particle_updates opts i steps p' = Inr pk"
    by (auto simp: st sum_bind_def split: sum.splits)
  have dt: "0 < dt" using Cons.prems(2) st by auto
  note s = anchored_step[OF assms u Cons.prems(3) dt Cons.prems(4,5)]
  have "p_startWorldPosition pk = Some anchor \<and> 0 < p_age pk \<and>
      (at_rest p' \<longrightarrow> at_rest pk \<and> p_position pk = p_position p')"
    using Cons.IH[OF rest] Cons.prems(2,3) s by auto
  then show ?case using s by auto
qed

lemma first_step_anchors:
  assumes "o_onUpdate opts = None" "o_worldPosition opts"
    "Particle_update opts anchor i dt p = Inr (p', w)"
    "0 < p_ttl p" "0 < dt" "p_age p = 0" "\<not> p_finished p"
  shows "p_startWorldPosition p' = Some anchor \<and> 0 < p_age p' \<and> p_ttl p' = p_ttl p \<and>
     (at_rest p \<longrightarrow> at_rest p' \<and> p_position p' = p_position p)"
proof -
  let ?p1 = "p\<lparr>p_startWorldPosition := Some anchor\<rparr>"
  have "0 < dt / p_ttl p" using assms(4,5) by simp
  then have age: "0 < p_age p'"
    using update_age(1)[OF assms(3) _ assms(7)] assms(1,6) by (simp add: keeps_age_None)
  note pl = Particle_update_plain[OF assms(7,3)]
  let ?q = "advance_age dt (integrate_velocity dt (integrate_position dt (fst (rotate i dt ?p1))))"
  have p': "p' = check_done ?q" using pl(1) assms(1,2,6) by (simp add: run_hook_def)
  have q: "p_startWorldPosition ?q = Some anchor"
    "p_ttl ?q = p_ttl p"
    "p_gravityX ?q = p_gravityX p" "p_gravityY ?q = p_gravityY p" "p_gravityZ ?q = p_gravityZ p"
    "p_acceleration ?q = p_acceleration p"
    by (simp_all add: advance_age_def integrate_velocity_shape integrate_position_shape
          rotate_shape)
  have rest: "at_rest p \<longrightarrow> p_velocity ?q = Some (Vector3 0 0 0) \<and> p_position ?q = p_position p"
  proof
    assume r: "at_rest p"
    then have v: "p_velocity ?p1 = Some (Vector3 0 0 0)" by (simp add: at_rest_def)
    have g: "with_gravity ?p1 dt (Vector3 0 0 0) = Vector3 0 0 0"
      using r by (simp add: at_rest_def with_gravity_def add_gravity_def)
    have acc: "p_acceleration ?p1 = None \<or> p_acceleration ?p1 = Some (Vector3 0 0 0)"
      using r by (simp add: at_rest_def)
    note k = kinematics[OF v, where i = i and dt = dt, unfolded g]
    have "p_position ?q = p_position p"
      using k(3) by (cases "p_position p") (simp add: v_add_def v_multiplyScalar_def)
    moreover have "p_velocity ?q = Some (Vector3 0 0 0)"
      using k(4) acc by (auto simp: v_add_def v_multiplyScalar_def)
    ultimately show "p_velocity ?q = Some (Vector3 0 0 0) \<and> p_position ?q = p_position p"
      by simp
  qed
  show ?thesis
    using age q rest unfolding p' check_done_def by (auto simp: at_rest_def)
qed


lemma v_add_sub_cancel: "v_add (v_sub P (v_sub S A)) S = v_add P A"
  by (simp add: v_add_def v_sub_def)

lemma position_after_rotate:
  "p_position (integrate_position dt (fst (rotate i dt p))) = p_position (integrate_position dt p)"
  by (simp add: integrate_position_shape rotate_shape with_gravity_def split: option.splits)

lemma rest_position: "at_rest p \<Longrightarrow> p_position (integrate_position dt p) = p_position p"
  by (cases "p_position p")
     (simp add: integrate_position_shape at_rest_def with_gravity_def add_gravity_def
        v_add_def v_multiplyScalar_def)

text \<open>
  C8. World-position locking is on and there is no update hook. The particle's first
  update (with a positive step, at a positive time to live) happens while the system is at
  \<open>anchor\<close>; any number of updates with positive steps follow; then an update happens
  while the system is at \<open>systemPos\<close>, the particle not yet finished. The position that
  update pushes is the local position less \<open>systemPos - anchor\<close>, so that pushed
  position plus the system's current position is local position plus anchor; the stored
  local position is what the integration step leaves, untouched by the correction; and
  for a particle at rest (zero velocity, no gravity, no acceleration) pushed position plus
  current system position is the world position the particle was spawned at.
\<close>

theorem world_position_lock:
  assumes "o_worldPosition options" "o_onUpdate options = None"
    "p_age p0 = 0" "\<not> p_finished p0" "0 < p_ttl p0" "0 < dt0"
    "\<forall>(a, dt) \<in> set mid. 0 < dt"
    "Particle_updates options index ((anchor, dt0) # mid) p0 = Inr pk"
    "\<not> p_finished pk"
    "Particle_update options systemPos index deltaTime pk = Inr (p', w)"
  shows "\<exists>ws pushed.
     w = ws @ [SetPosition index pushed] \<and>
     pushed = v_sub (p_position p') (v_sub systemPos anchor) \<and>
     v_add pushed systemPos = v_add (p_position p') anchor \<and>
     p_position p' = p_position (integrate_position deltaTime pk) \<and>
     (at_rest p0 \<longrightarrow> v_add pushed systemPos = v_add (p_position p0) anchor)"
proof -
  from assms(8) obtain p1 w1 where
    u1: "Particle_update options anchor index dt0 p0 = Inr (p1, w1)"
    and rest: "Particle_updates options index mid p1 = Inr pk"
    by (auto simp: sum_bind_def split: sum.splits)
  note f = first_step_anchors[OF assms(2,1) u1 assms(5,6,3,4)]
  have t1: "0 < p_ttl p1" using f assms(5) by simp
  have r: "p_startWorldPosition pk = Some anchor \<and> 0 < p_age pk \<and>
      (at_rest p1 \<longrightarrow> at_rest pk \<and> p_position pk = p_position p1)"
    using anchored_run[OF assms(2) rest assms(7) t1] f by blast
  have a: "(if p_age pk = 0 \<and> o_worldPosition options then Some systemPos
            else p_startWorldPosition pk) = Some anchor" using r by simp
  have pk: "pk\<lparr>p_startWorldPosition := Some anchor\<rparr> = pk" using r by simp
  note pl = Particle_update_plain[OF assms(9,10), unfolded a pk]
  let ?ip = "integrate_position deltaTime (fst (rotate index deltaTime pk))"
  obtain ws where ws: "w = ws @ [SetPosition index (positionToSet systemPos ?ip)]"
    using pl(2) by blast
  have p': "p_position p' = p_position ?ip"
    unfolding pl(1) assms(2) run_hook_def check_done_def advance_age_def
      integrate_velocity_shape
    by simp
  have an: "p_startWorldPosition ?ip = Some anchor"
    using r by (simp add: integrate_position_shape rotate_shape)
  have push: "positionToSet systemPos ?ip = v_sub (p_position p') (v_sub systemPos anchor)"
    by (simp add: positionToSet_def an p')
  have stay: "at_rest p0 \<longrightarrow> p_position p' = p_position p0"
  proof
    assume "at_rest p0"
    then have "at_rest pk \<and> p_position pk = p_position p0" using f r by simp
    then show "p_position p' = p_position p0"
      using p' by (simp add: position_after_rotate rest_position)
  qed
  show ?thesis
    using ws push p' stay by (auto simp: v_add_sub_cancel position_after_rotate)
qed


lemmas update_eval =
  Particle_update_def start_update_def first_update_def animate_def sum_bind_def
  rotate_def integrate_position_def integrate_velocity_def advance_age_def check_done_def
  run_hook_def positionToSet_def with_gravity_def add_gravity_def opt_truthy_def
  opt_or_opt_def truthy_def v_sub_def default_particle_options_def Let_def

lemma reset_locked: "Particle_reset locked_options g = Inr (locked_particle, g)"
  by (simp add: Particle_reset_def locked_options_def locked_particle_def ttl2_particle_def
      default_particle_options_def
      getConstOrRandomVector_def getRandomWithSpread_def opt_truthy_def opt_or_def js_or_def
      truthy_def reset_triple_def reset_colors_def reset_rotation_def sum_bind_def run_hook_def
      opt_or_opt_def)

theorem world_position_lock_witness:
  "\<exists>pk p' w ws pushed.
     Particle_updates locked_options 0
       [(Vector3 10 0 0, 1/2), (Vector3 20 5 0, 1/4)] locked_particle = Inr pk \<and>
     Particle_update locked_options (Vector3 30 0 (- 7)) 0 (1/4) pk = Inr (p', w) \<and>
     w = ws @ [SetPosition 0 pushed] \<and>
     pushed = Vector3 (- 19) 2 10 \<and>
     v_add pushed (Vector3 30 0 (- 7)) = Vector3 11 2 3 \<and>
     p_position p' = Vector3 1 2 3"
proof -
  obtain pk where pk: "Particle_updates locked_options 0
       [(Vector3 10 0 0, 1/2), (Vector3 20 5 0, 1/4)] locked_particle = Inr pk"
    "\<not> p_finished pk" "lerp_safe pk"
    by (simp add: update_eval locked_options_def locked_particle_def ttl2_particle_def
          lerp_safe_def)
  obtain p' w where u: "Particle_update locked_options (Vector3 30 0 (- 7)) 0 (1/4) pk = Inr (p', w)"
    using Particle_update_total[OF pk(3)] by blast
  have o: "o_worldPosition locked_options" "o_onUpdate locked_options = None"
    "p_age locked_particle = 0" "\<not> p_finished locked_particle" "0 < p_ttl locked_particle"
    "at_rest locked_particle" "p_position locked_particle = Vector3 1 2 3"
    by (simp_all add: locked_options_def locked_particle_def ttl2_particle_def
          default_particle_options_def at_rest_def opt_truthy_def)
  have m: "\<forall>(a, dt) \<in> set [(Vector3 20 5 0, 1/4 :: real)]. 0 < dt" by simp
  have h: "(0::real) < 1/2" by simp
  from world_position_lock[OF o(1-5) h m pk(1,2) u] o(6,7) pk(1) u
  show ?thesis
    by (auto simp: v_add_def v_sub_def intro: vec3.expand)
qed

section \<open>The first push of a constant\<close>

lemma first_update_constant_alpha:
  assumes "p_alpha p = Some c" "p_startAlpha p = None"
  shows "\<exists>ws. first_update index p = SetAlpha index (if c = 0 then None else Some c) # ws"
  using assms by (simp add: first_update_def opt_or_opt_def truthy_def)

text \<open>
  In constant mode the first update hands the constant itself to \<open>setAlpha\<close> when it is
  not 0, and \<open>null\<close> when it is 0; either way the alpha array then holds the constant.
\<close>

lemma constant_alpha_first_push:
  assumes "\<not> p_finished p" "p_age p = 0" "p_alpha p = Some c" "p_startAlpha p = None"
    "Particle_update options systemPos index deltaTime p = Inr (p', w)"
    "s_alphas s = Some alphas" "index < length alphas"
  shows "\<exists>ws s' alphas'.
     w = SetAlpha index (if c = 0 then None else Some c) # ws \<and>
     setAlpha index (if c = 0 then None else Some c) s = Inr s' \<and>
     s_alphas s' = Some alphas' \<and> alphas' ! index = c"
proof -
  from assms(1,5) obtain p1 w1 where s: "start_update options systemPos index p = Inr (p1, w1)"
    and w: "w = w1 @ snd (rotate index deltaTime p1) @
          [SetPosition index (positionToSet systemPos
             (integrate_position deltaTime (fst (rotate index deltaTime p1))))]"
    by (rule Particle_update_unfold)
  have "w1 = first_update index p" using s assms(2) by (simp add: start_update_def)
  then obtain ws1 where "w1 = SetAlpha index (if c = 0 then None else Some c) # ws1"
    using first_update_constant_alpha[OF assms(3,4)] by metis
  then have "\<exists>ws. w = SetAlpha index (if c = 0 then None else Some c) # ws"
    using w by simp
  then show ?thesis using assms(6,7) by (auto simp: setAlpha_def ToNumber_def)
qed

lemma constant_size_first_push:
  assumes "\<not> p_finished p" "p_age p = 0" "p_size p = Some c" "p_startSize p = None"
    "Particle_update options systemPos index deltaTime p = Inr (p', w)"
    "s_sizes s = Some sizes" "index < length sizes"
  shows "\<exists>s' sizes'.
     SetSize index (if c = 0 then None else Some c) \<in> set w \<and>
     setSize index (if c = 0 then None else Some c) s = Inr s' \<and>
     s_sizes s' = Some sizes' \<and> sizes' ! index = c"
proof -
  from assms(1,5) obtain p1 w1 where s: "start_update options systemPos index p = Inr (p1, w1)"
    and w: "w = w1 @ snd (rotate index deltaTime p1) @
          [SetPosition index (positionToSet systemPos
             (integrate_position deltaTime (fst (rotate index deltaTime p1))))]"
    by (rule Particle_update_unfold)
  have "w1 = first_update index p" using s assms(2) by (simp add: start_update_def)
  then have "SetSize index (if c = 0 then None else Some c) \<in> set w1"
    using assms(3,4) by (simp add: first_update_def opt_or_opt_def truthy_def)
  then have "SetSize index (if c = 0 then None else Some c) \<in> set w"
    using w by simp
  then show ?thesis using assms(6,7) by (auto simp: setSize_def ToNumber_def)
qed

lemma reset_zero_alpha: "Particle_reset zero_alpha_options g = Inr (zero_alpha_particle, g)"
  by (simp add: Particle_reset_def zero_alpha_options_def zero_alpha_particle_def
      ttl2_particle_def set_flags_def defined_def default_particle_options_def
      getConstOrRandomVector_def getRandomWithSpread_def opt_truthy_def opt_or_def js_or_def
      truthy_def reset_triple_def reset_colors_def reset_rotation_def sum_bind_def run_hook_def
      opt_or_opt_def)

text \<open>
  C10, at the input where the code departs from it. The options ask for a constant alpha
  of 0; the reset resolves the constant to 0 and leaves the start value \<open>null\<close>; the
  first update then hands \<open>null\<close>, not 0, to \<open>setAlpha\<close>, because \<open>0 || null\<close> is
  \<open>null\<close>.
\<close>

theorem zero_constant_alpha_pushes_null:
  "Particle_reset zero_alpha_options still = Inr (zero_alpha_particle, still) \<and>
   p_alpha zero_alpha_particle = Some 0 \<and> p_startAlpha zero_alpha_particle = None \<and>
   (\<exists>p'. Particle_update zero_alpha_options origin 0 (1/2) zero_alpha_particle
           = Inr (p', [SetAlpha 0 None, SetPosition 0 (Vector3 0 0 0)]))"
  by (simp add: reset_zero_alpha)
     (simp add: Particle_update_def start_update_def first_update_def sum_bind_def
      rotate_def integrate_position_def integrate_velocity_def advance_age_def check_done_def
      run_hook_def positionToSet_def with_gravity_def add_gravity_def opt_truthy_def
      opt_or_opt_def truthy_def v_sub_def default_particle_options_def Let_def
      zero_alpha_options_def zero_alpha_particle_def ttl2_particle_def set_flags_def origin_def)

section \<open>The count an emitter returns\<close>

text \<open>
  C9. An emitter that has not been updated yet (its age is 0), with a truthy burst option
  and no interval policy: its update returns the resolved burst quantity as it is,
  whatever the decay threshold and whatever the remaining lifetime of the system.
\<close>

theorem burst_without_interval_is_not_decayed:
  assumes "e_age e = 0" "e_onSpawnBurst e = Some b" "src_truthy b" "no_interval e"
  shows "fst (Emitter_update deltaTime system_ttl e g) = fst (randomizerOrValue b g)"
  using assms
  by (auto simp: Emitter_update_def burst_def no_interval_def Let_def
      split: option.splits prod.splits)

lemma burst_emitter_new: "fst (Emitter_new burst_options still) = burst_emitter"
  by (simp add: Emitter_new_def burst_options_def burst_emitter_def src_or_one_def
        Math_random_def still_def js_or_def truthy_def Let_def)

theorem burst_without_interval_is_not_decayed_witness:
  "fst (Emitter_update 1 (Some 2) (fst (Emitter_new burst_options still)) still) = 10"
  using burst_without_interval_is_not_decayed[of burst_emitter "Num 10" 1 "Some 2" still]
  by (simp add: burst_emitter_new)
     (simp add: burst_emitter_def no_interval_def truthy_def js_or_def)

text \<open>
  C5 as it is stated fails for an emitter without an interval policy: with a burst of 10,
  a decay threshold of 4 and a remaining lifetime of 2 the update returns 10, not 5.
\<close>

theorem burst_only_emitter_is_not_halved:
   "fst (Emitter_update 1 (Some 2) burst_emitter still) = 10 \<and>
    fst (Emitter_update 1 (Some 2) burst_emitter still) \<noteq> 10 * (2 / 4)"
  by (simp add: Emitter_update_def burst_def burst_emitter_def truthy_def js_or_def)

text \<open>
  C5, as the code has it. For an emitter with an interval policy and a decay threshold
  \<open>T\<close>, updated while the system's remaining lifetime \<open>t\<close> is below \<open>T\<close>: the count
  returned is the whole count of that call, the burst plus what the interval added, times
  \<open>t / T\<close>; at \<open>t = T / 2\<close> it is half that count.
\<close>

theorem decay_scales_burst_and_interval:
  assumes "e_onInterval e = Some q" "src_truthy q"
    "e_detoretingMinTtl e = Some T" "T \<noteq> 0" "t < T"
  shows "fst (Emitter_update deltaTime (Some t) e g) =
      (fst (burst e g) +
        (if e_timeToSpawn e - deltaTime \<le> 0
         then fst (randomizerOrValue q (snd (randomizerOrValue (e_interval e) (snd (burst e g)))))
         else 0)) * (t / T) \<and>
     (t = T / 2 \<longrightarrow>
        fst (Emitter_update deltaTime (Some t) e g) =
          (fst (burst e g) +
            (if e_timeToSpawn e - deltaTime \<le> 0
             then fst (randomizerOrValue q
                        (snd (randomizerOrValue (e_interval e) (snd (burst e g)))))
             else 0)) / 2)"
proof -
  obtain r1 g1 where b: "burst e g = (r1, g1)" by force
  obtain iv g2 where i: "randomizerOrValue (e_interval e) g1 = (iv, g2)" by force
  obtain qv g3 where q: "randomizerOrValue q g2 = (qv, g3)" by force
  have main: "fst (Emitter_update deltaTime (Some t) e g) =
      (r1 + (if e_timeToSpawn e - deltaTime \<le> 0 then qv else 0)) * (t / T)"
    using assms
    by (simp add: Emitter_update_def b i q Let_def decay_def opt_truthy_def truthy_def
          ToNumber_def)
  have half: "t = T / 2 \<Longrightarrow> t / T = 1 / 2" using assms(4) by simp
  show ?thesis using main half by (auto simp: b i q)
qed

theorem decay_scales_burst_and_interval_witness:
  "fst (Emitter_update 1 (Some 2) interval_emitter still) = 8"
  using decay_scales_burst_and_interval[of interval_emitter "Num 6" 4 2 1 still]
  by (simp add: interval_emitter_def burst_emitter_def burst_def truthy_def js_or_def)

section \<open>The two pools\<close>

lemma apply_write_pools:
  assumes "apply_write w s = Inr s'"
  shows "s_aliveParticles s' = s_aliveParticles s \<and> s_deadParticles s' = s_deadParticles s \<and>
     s_options s' = s_options s"
  using assms
  by (cases w)
     (auto simp: setAlpha_def setColor_def setSize_def setRotation_def setPosition_def
        split: option.splits)

lemma apply_writes_pools:
  "apply_writes ws s = Inr s' \<Longrightarrow>
     s_aliveParticles s' = s_aliveParticles s \<and> s_deadParticles s' = s_deadParticles s \<and>
     s_options s' = s_options s"
proof (induction ws arbitrary: s)
  case Nil
  then show ?case by simp
next
  case (Cons w ws)
  from Cons.prems obtain s1 where 1: "apply_write w s = Inr s1" and 2: "apply_writes ws s1 = Inr s'"
    by (auto simp: sum_bind_def split: sum.splits)
  show ?case using apply_write_pools[OF 1] Cons.IH[OF 2] by simp
qed

lemma update_particles_pools:
  "update_particles wp dt n s = Inr s' \<Longrightarrow>
     maxParticlesCount s' = maxParticlesCount s \<and> s_options s' = s_options s"
proof (induction n arbitrary: s)
  case 0
  then show ?case by simp
next
  case (Suc i)
  from Suc.prems have i: "i < length (s_aliveParticles s)"
    by (auto split: if_splits)
  from Suc.prems i obtain particle writes s1 where
    w: "apply_writes writes s = Inr s1" and
    r: "update_particles wp dt i
          (if p_finished particle then
             s1\<lparr>s_aliveParticles :=
                   take i (s_aliveParticles s1) @ drop (Suc i) (s_aliveParticles s1),
                s_deadParticles := s_deadParticles s1 @ [particle]\<rparr>
           else s1\<lparr>s_aliveParticles := (s_aliveParticles s1)[i := particle]\<rparr>) = Inr s'"
    by (auto simp: sum_bind_def split: sum.splits)
  note a = apply_writes_pools[OF w]
  show ?case using Suc.IH[OF r] a i
    by (auto simp: maxParticlesCount_def split: if_splits)
qed

lemma spawn_loop_pools:
  "spawn_loop quantity i s = Inr s' \<Longrightarrow>
     maxParticlesCount s' = maxParticlesCount s \<and> s_options s' = s_options s"
proof (induction quantity i s rule: spawn_loop.induct)
  case (1 quantity i s)
  show ?case
  proof (cases "real i < quantity \<and> s_deadParticles s \<noteq> []")
    case False
    then show ?thesis using "1.prems"
      by (auto simp: spawn_loop.simps[of quantity i s] split: if_splits)
  next
    case True
    from "1.prems" True obtain particle g where
      r: "Particle_reset (s_options s) (s_random s) = Inr (particle, g)"
      by (auto simp: spawn_loop.simps[of quantity i s] split: sum.splits)
    let ?s1 = "s\<lparr>s_deadParticles := butlast (s_deadParticles s),
                    s_aliveParticles := s_aliveParticles s @ [particle],
                    s_random := g\<rparr>"
    have "spawn_loop quantity (Suc i) ?s1 = Inr s'"
      using "1.prems" True r by (simp add: spawn_loop.simps[of quantity i s])
    from "1.IH"[OF conjunct1[OF True] conjunct2[OF True] r refl this]
    show ?thesis using True by (auto simp: maxParticlesCount_def)
  qed
qed

lemma update_emitters_pools:
  "update_emitters dt es s = Inr (es', s') \<Longrightarrow>
     maxParticlesCount s' = maxParticlesCount s \<and> s_options s' = s_options s"
proof (induction es arbitrary: s es')
  case Nil
  then show ?case by simp
next
  case (Cons e es)
  obtain toSpawn e' g where u: "Emitter_update dt (s_ttl s) e (s_random s) = (toSpawn, e', g)"
    by (metis prod_cases3)
  from Cons.prems u obtain s1 es1 where
    1: "(if truthy toSpawn then spawnParticles toSpawn (s\<lparr>s_random := g\<rparr>)
         else Inr (s\<lparr>s_random := g\<rparr>)) = Inr s1"
    and 2: "update_emitters dt es s1 = Inr (es1, s')"
    by (auto simp: sum_bind_def split: sum.splits)
  have "maxParticlesCount s1 = maxParticlesCount s \<and> s_options s1 = s_options s"
    using 1 spawn_loop_pools[of toSpawn 0 "s\<lparr>s_random := g\<rparr>" s1]
    by (auto simp: spawnParticles_def maxParticlesCount_def split: if_splits)
  then show ?case using Cons.IH[OF 2] by simp
qed

lemma System_update_pools:
  assumes "System_update hooks world dt s = Inr s'"
    "keeps_pools (h_options_onFinish hooks)" "keeps_pools (h_onFinish hooks)"
    "keeps_pools (h_options_onUpdate hooks)" "keeps_pools (h_onUpdate hooks)"
  shows "maxParticlesCount s' = maxParticlesCount s"
proof (cases "dt = 0")
  case True
  then show ?thesis using assms(1) by (simp add: System_update_def)
next
  case False
  define s1 where "s1 = (case s_ttl s of None \<Rightarrow> s
      | Some t \<Rightarrow> if t > 0 then s\<lparr>s_ttl := Some (t - dt)\<rparr> else s)"
  define deltaTime where "deltaTime = dt * s_speed s1"
  define s2 where "s2 = s1\<lparr>s_dt := Some deltaTime, s_age := s_age s1 + deltaTime\<rparr>"
  define s3 where "s3 = (case s_boundObject s2 of None \<Rightarrow> s2 | Some pos \<Rightarrow> s2\<lparr>s_position := pos\<rparr>)"
  have m3: "maxParticlesCount s3 = maxParticlesCount s"
    by (simp add: s3_def s2_def s1_def maxParticlesCount_def split: option.splits)
  from assms(1) False obtain s4 s5 where
    4: "(if \<not> ttlExpired s3 then
                sum_bind (update_emitters deltaTime (s_emitters s3) s3)
                  (\<lambda>(es, s). Inr (s\<lparr>s_emitters := es\<rparr>))
              else Inr s3) = Inr s4"
    and 5: "update_particles (world (s_position s4)) deltaTime
                   (length (s_aliveParticles s4)) s4 = Inr s5"
    and 6: "s' = (let s6 = (if length (s_aliveParticles s3) \<noteq> length (s_aliveParticles s5)
                             then s5\<lparr>s_drawRange := length (s_aliveParticles s5)\<rparr> else s5);
                       s7 = update_bounding_sphere deltaTime (flush_dirty s6)
                   in (if finished s7
                           then run_hook (h_onFinish hooks) (run_hook (h_options_onFinish hooks) s7)
                           else run_hook (h_onUpdate hooks)
                                  (run_hook (h_options_onUpdate hooks) s7)))"
    unfolding System_update_def s1_def[symmetric] Let_def deltaTime_def[symmetric]
      s2_def[symmetric] s3_def[symmetric]
    by (auto simp: sum_bind_def split: sum.splits)
  have m4: "maxParticlesCount s4 = maxParticlesCount s3"
  proof (cases "ttlExpired s3")
    case True
    then show ?thesis using 4 by simp
  next
    case False
    from 4 False obtain es s4' where e: "update_emitters deltaTime (s_emitters s3) s3 = Inr (es, s4')"
      and "s4 = s4'\<lparr>s_emitters := es\<rparr>"
      by (auto simp: sum_bind_def split: sum.splits)
    then show ?thesis using update_emitters_pools[OF e] by (simp add: maxParticlesCount_def)
  qed
  have m5: "maxParticlesCount s5 = maxParticlesCount s4"
    using update_particles_pools[OF 5] by simp
  define s7 where "s7 = update_bounding_sphere deltaTime (flush_dirty
      (if length (s_aliveParticles s3) \<noteq> length (s_aliveParticles s5)
                             then s5\<lparr>s_drawRange := length (s_aliveParticles s5)\<rparr> else s5))"
  have m7: "maxParticlesCount s7 = maxParticlesCount s5"
    by (simp add: s7_def update_bounding_sphere_def flush_dirty_def maxParticlesCount_def Let_def)
  have s': "s' = (if finished s7
                           then run_hook (h_onFinish hooks) (run_hook (h_options_onFinish hooks) s7)
                           else run_hook (h_onUpdate hooks)
                                  (run_hook (h_options_onUpdate hooks) s7))"
    using 6 by (simp add: s7_def Let_def)
  have "maxParticlesCount s' = maxParticlesCount s7"
    using assms(2-5) unfolding s' keeps_pools_def by simp
  then show ?thesis using m7 m5 m4 m3 by simp
qed

lemma make_particles_length:
  "make_particles options n g = Inr (ps, g') \<Longrightarrow> length ps = n"
proof (induction n arbitrary: g ps)
  case 0
  then show ?case by simp
next
  case (Suc n)
  from Suc.prems obtain p g1 ps1 where "Particle_reset options g = Inr (p, g1)"
    and m: "make_particles options n g1 = Inr (ps1, g')" and "ps = p # ps1"
    by (auto simp: sum_bind_def split: sum.splits)
  then show ?case using Suc.IH[OF m] by simp
qed

lemma new_pools:
  assumes "ParticlesSystem_new options g = Inr s"
  shows "maxParticlesCount s = configuredCapacity options"
  using assms make_particles_length
  by (auto simp: ParticlesSystem_new_def configuredCapacity_def maxParticlesCount_def
        sum_bind_def Let_def split: sum.splits)

lemma perform_pools:
  assumes "perform hooks c s = Inr s'"
    "keeps_pools (h_options_onFinish hooks)" "keeps_pools (h_onFinish hooks)"
    "keeps_pools (h_options_onUpdate hooks)" "keeps_pools (h_onUpdate hooks)"
  shows "maxParticlesCount s' = maxParticlesCount s"
proof (cases c)
  case (Update world dt)
  then show ?thesis using System_update_pools[OF _ assms(2-5)] assms(1) by simp
next
  case (Spawn quantity)
  then show ?thesis using spawn_loop_pools[of quantity 0 s s'] assms(1)
    by (simp add: spawnParticles_def)
qed

lemma System_run_pools:
  assumes "keeps_pools (h_options_onFinish hooks)" "keeps_pools (h_onFinish hooks)"
    "keeps_pools (h_options_onUpdate hooks)" "keeps_pools (h_onUpdate hooks)"
  shows "\<forall>s' \<in> set (System_run hooks ops s). maxParticlesCount s' = maxParticlesCount s"
proof (induction ops arbitrary: s)
  case Nil
  then show ?case by simp
next
  case (Cons c cs)
  show ?case
  proof (cases "perform hooks c s")
    case (Inl e)
    then show ?thesis by simp
  next
    case (Inr s1)
    then show ?thesis using Cons.IH[of s1] perform_pools[OF Inr assms] by simp
  qed
qed

text \<open>
  C3. For every system the constructor returns and every run of updates and spawn requests
  on it, with system hooks that move no particle between or out of the pools: in every
  state the run passes through, the alive particles and the dead particles together are
  as many as the capacity the options asked for.
\<close>

theorem pools_keep_capacity:
  assumes "ParticlesSystem_new options g = Inr s0"
    "keeps_pools (h_options_onFinish hooks)" "keeps_pools (h_onFinish hooks)"
    "keeps_pools (h_options_onUpdate hooks)" "keeps_pools (h_onUpdate hooks)"
  shows "\<forall>s \<in> set (System_run hooks ops s0).
     length (s_aliveParticles s) + length (s_deadParticles s) = configuredCapacity options"
  using System_run_pools[OF assms(2-5), of ops s0] new_pools[OF assms(1)]
  by (simp add: maxParticlesCount_def)


lemma reset_triple_total:
  assumes "\<not> flag \<or> c \<noteq> None \<or> (st \<noteq> None \<and> en \<noteq> None)"
  shows "\<exists>r. reset_triple flag c st en g = Inr r"
  using assms by (auto simp: reset_triple_def split: option.splits prod.splits)

lemma Particle_reset_total:
  assumes "reset_safe options"
  shows "\<exists>p g'. Particle_reset options g = Inr (p, g')"
proof -
  obtain v0 g1 where 1: "getConstOrRandomVector (o_velocity options) False g = (v0, g1)" by force
  obtain a g2 where 2: "getConstOrRandomVector (o_acceleration options) True g1 = (a, g2)" by force
  obtain po g3 where 3: "getConstOrRandomVector (o_offset options) False g2 = (po, g3)" by force
  obtain t g4 where 4: "getRandomWithSpread (opt_or (o_ttl options) 1) (o_ttlExtra options) g3 = (t, g4)"
    by force
  obtain al g5 where 5: "reset_triple (o_fade options) (o_alpha options) (o_startAlpha options)
                  (o_endAlpha options) g4 = Inr (al, g5)"
    using reset_triple_total[of "o_fade options" "o_alpha options" "o_startAlpha options"
        "o_endAlpha options" g4] assms
    by (auto simp: reset_safe_def)
  obtain co g6 where 6: "reset_colors options g5 = (co, g6)" by (metis surj_pair)
  obtain sz g7 where 7: "reset_triple (o_scaling options) (o_size options) (o_startSize options)
                  (o_endSize options) g6 = Inr (sz, g7)"
    using reset_triple_total[of "o_scaling options" "o_size options" "o_startSize options"
        "o_endSize options" g6] assms
    by (auto simp: reset_safe_def)
  obtain ro g8 where 8: "reset_rotation options g7 = (ro, g8)" by (metis surj_pair)
  show ?thesis
    by (simp add: Particle_reset_def 1 2 3 4 5 6 7 8 sum_bind_def Let_def split: prod.splits)
qed

lemma make_particles_total:
  assumes "reset_safe options"
  shows "\<exists>ps g'. make_particles options n g = Inr (ps, g')"
proof (induction n arbitrary: g)
  case 0
  then show ?case by simp
next
  case (Suc n)
  obtain p g1 where 1: "Particle_reset options g = Inr (p, g1)"
    using Particle_reset_total[OF assms] by blast
  obtain ps g2 where 2: "make_particles options n g1 = Inr (ps, g2)"
    using Suc.IH by blast
  show ?case by (simp add: 1 2 sum_bind_def)
qed

text \<open>The constructor leaves options on which a reset cannot raise.\<close>

lemma validated_reset_safe:
  assumes "validate (set_flags po) = Inr ()"
  shows "reset_safe (set_flags po)"
  using assms
  by (auto simp: validate_def set_flags_def reset_safe_def defined_def split: if_splits)

lemma new_reset_safe:
  assumes "ParticlesSystem_new options g = Inr s"
  shows "reset_safe (s_options s)"
proof -
  define po where "po = replace_constants (case opt_particles options of
                         None \<Rightarrow> default_particle_options | Some po \<Rightarrow> po)"
  from assms have v: "validate (set_flags po) = Inr ()" and o: "s_options s = set_flags po"
    by (auto simp: ParticlesSystem_new_def po_def sum_bind_def Let_def split: sum.splits)
  show ?thesis unfolding o using v by (rule validated_reset_safe)
qed

lemma new_total:
  assumes "validate (set_flags (replace_constants (case opt_particles options of
                         None \<Rightarrow> default_particle_options | Some po \<Rightarrow> po))) = Inr ()"
  shows "\<exists>s. ParticlesSystem_new options g = Inr s"
proof -
  let ?po = "set_flags (replace_constants (case opt_particles options of
                         None \<Rightarrow> default_particle_options | Some po \<Rightarrow> po))"
  obtain ps g' where "make_particles ?po (particleCount (case opt_system options of
                        None \<Rightarrow> default_system_options | Some so \<Rightarrow> so)) g = Inr (ps, g')"
    using make_particles_total[OF validated_reset_safe[OF assms]] by blast
  then show ?thesis using assms
    by (simp add: ParticlesSystem_new_def sum_bind_def Let_def)
qed

lemma spawn_all:
  "reset_safe (s_options s) \<Longrightarrow> length (s_deadParticles s) = n \<Longrightarrow>
   real (i + n) < quantity \<Longrightarrow>
   \<exists>ps g. make_particles (s_options s) n (s_random s) = Inr (ps, g) \<and>
     spawn_loop quantity i s =
       Inr (s\<lparr>s_deadParticles := [], s_aliveParticles := s_aliveParticles s @ ps,
              s_random := g\<rparr>)"
proof (induction n arbitrary: i s)
  case 0
  then show ?case by (simp add: spawn_loop.simps[of quantity i s])
next
  case (Suc n)
  have ne: "s_deadParticles s \<noteq> []" using Suc.prems(2) by auto
  have lt: "real i < quantity" using Suc.prems(3) by simp
  obtain p g1 where r: "Particle_reset (s_options s) (s_random s) = Inr (p, g1)"
    using Particle_reset_total[OF Suc.prems(1)] by blast
  let ?s1 = "s\<lparr>s_deadParticles := butlast (s_deadParticles s),
                    s_aliveParticles := s_aliveParticles s @ [p],
                    s_random := g1\<rparr>"
  have step: "spawn_loop quantity i s = spawn_loop quantity (Suc i) ?s1"
    using ne lt r by (simp add: spawn_loop.simps[of quantity i s])
  have "\<exists>ps g. make_particles (s_options ?s1) n (s_random ?s1) = Inr (ps, g) \<and>
     spawn_loop quantity (Suc i) ?s1 =
       Inr (?s1\<lparr>s_deadParticles := [], s_aliveParticles := s_aliveParticles ?s1 @ ps,
              s_random := g\<rparr>)"
    using Suc.prems by (intro Suc.IH) auto
  then obtain ps g where m: "make_particles (s_options s) n g1 = Inr (ps, g)"
    and l: "spawn_loop quantity (Suc i) ?s1 =
       Inr (s\<lparr>s_deadParticles := [], s_aliveParticles := s_aliveParticles s @ p # ps,
              s_random := g\<rparr>)"
    by auto
  show ?case using m l step r by (simp add: sum_bind_def)
qed

text \<open>
  C7. A system whose options are as a constructor leaves them (every constructed system,
  by \<open>new_reset_safe\<close>) has \<open>K\<close> particles in its dead pool and is asked to spawn more
  than \<open>K\<close>. The call returns without an error; the dead pool is empty afterwards and the
  alive list is the old alive list followed by exactly \<open>K\<close> freshly reset particles; the
  rest of the request is dropped.
\<close>

theorem spawn_saturates:
  assumes "reset_safe (s_options s)" "real (length (s_deadParticles s)) < quantity"
  shows "\<exists>ps g.
     make_particles (s_options s) (length (s_deadParticles s)) (s_random s) = Inr (ps, g) \<and>
     length ps = length (s_deadParticles s) \<and>
     spawnParticles quantity s =
       Inr (s\<lparr>s_deadParticles := [], s_aliveParticles := s_aliveParticles s @ ps,
              s_random := g\<rparr>)"
  using spawn_all[OF assms(1) refl, of 0 quantity] assms(2) make_particles_length
  by (auto simp: spawnParticles_def)

lemma small_options_new: "\<exists>s0. ParticlesSystem_new small_options still = Inr s0"
  by (rule new_total)
     (simp add: small_options_def ttl2_options_def default_particle_options_def
        replace_constants_def set_flags_def validate_def defined_def)

theorem spawn_saturates_witness:
  "\<exists>s0 s ps g.
     ParticlesSystem_new small_options still = Inr s0 \<and>
     length (s_deadParticles s0) = 2 \<and> s_aliveParticles s0 = [] \<and>
     spawnParticles 5 s0 = Inr s \<and> s_deadParticles s = [] \<and> length (s_aliveParticles s) = 2"
proof -
  obtain s0 where n: "ParticlesSystem_new small_options still = Inr s0"
    using small_options_new by blast
  have d: "length (s_deadParticles s0) = 2" "s_aliveParticles s0 = []"
    using n make_particles_length
    by (auto simp: ParticlesSystem_new_def small_options_def particleCount_def sum_bind_def
          Let_def split: sum.splits)
  have q: "real (length (s_deadParticles s0)) < 5" using d by simp
  from spawn_saturates[OF new_reset_safe[OF n] q] n d
  show ?thesis by auto
qed

lemmas new_eval =
  ParticlesSystem_new_def default_particle_options_def default_system_options_def
  replace_constants_def set_flags_def validate_def defined_def particleCount_def
  sum_bind_def Let_def eval_nat_numeral
  Particle_reset_def getConstOrRandomVector_def getRandomWithSpread_def opt_truthy_def
  opt_or_def js_or_def truthy_def reset_triple_def reset_colors_def reset_rotation_def
  getConstOrRandomColor_def run_hook_def opt_or_opt_def still_def

text \<open>
  A run of the small system: one particle is spawned by hand, the first update lets the
  emitter's burst of 10 take the one slot that is left, and nothing more can be spawned.
\<close>

lemma small_system_run:
  "\<exists>s0. ParticlesSystem_new small_options still = Inr s0 \<and>
     map (\<lambda>s. (length (s_aliveParticles s), length (s_deadParticles s)))
       (System_run no_hooks [Spawn 1, Update id 1, Spawn 5, Update id (1/2)] s0)
     = [(0, 2), (1, 1), (2, 0), (2, 0), (2, 0)]"
  by (simp add: new_eval small_options_def ttl2_options_def
        spawnParticles_def spawn_loop.simps System_update_def ttlExpired_def finished_def
        particlesCount_def Emitter_update_def burst_def burst_emitter_def decay_def
        update_eval setPosition_def flush_dirty_def update_bounding_sphere_def no_hooks_def)

theorem pools_keep_capacity_witness:
  "\<exists>s0. ParticlesSystem_new small_options still = Inr s0 \<and>
     map (\<lambda>s. (length (s_aliveParticles s), length (s_deadParticles s)))
       (System_run no_hooks [Spawn 1, Update id 1, Spawn 5, Update id (1/2)] s0)
     = [(0, 2), (1, 1), (2, 0), (2, 0), (2, 0)] \<and>
     list_all (\<lambda>s. length (s_aliveParticles s) + length (s_deadParticles s) = 2)
       (System_run no_hooks [Spawn 1, Update id 1, Spawn 5, Update id (1/2)] s0)"
proof -
  obtain s0 where n: "ParticlesSystem_new small_options still = Inr s0"
    and r: "map (\<lambda>s. (length (s_aliveParticles s), length (s_deadParticles s)))
       (System_run no_hooks [Spawn 1, Update id 1, Spawn 5, Update id (1/2)] s0)
     = [(0, 2), (1, 1), (2, 0), (2, 0), (2, 0)]"
    using small_system_run by (elim exE conjE) (rule that)
  have k: "keeps_pools None" by (simp add: keeps_pools_def run_hook_def)
  have c: "configuredCapacity small_options = 2"
    by (simp add: configuredCapacity_def small_options_def particleCount_def)
  show ?thesis
    using pools_keep_capacity
            [OF n, of no_hooks "[Spawn 1, Update id 1, Spawn 5, Update id (1/2)]"] n r k c
    by (auto simp: no_hooks_def list_all_iff)
qed

section \<open>The checks of the constructor\<close>

text \<open>
  What the constructor does reject: a start value without its end value, and a start
  value together with a constant, for alpha always, and for colour and size when the
  constant is a randomizer.
\<close>

lemma constructor_rejects:
  assumes "opt_particles options = Some po"
   "(o_startAlpha po \<noteq> None \<and> (o_endAlpha po = None \<or> o_alpha po \<noteq> None)) \<or>
    (o_startColor po \<noteq> None \<and>
       (o_endColor po = None \<or> (\<exists>a b. o_color po = Some (ColorsRandomizer a b)))) \<or>
    (o_startSize po \<noteq> None \<and>
       (o_endSize po = None \<or> (\<exists>a b. o_size po = Some (MinMaxRandomizer a b))))"
  shows "\<exists>msg. ParticlesSystem_new options g = Inl (Error msg)"
proof -
  let ?p = "set_flags (replace_constants po)"
  have f: "o_startAlpha ?p = o_startAlpha po" "o_endAlpha ?p = o_endAlpha po"
    "o_alpha ?p = o_alpha po" "o_startColor ?p = o_startColor po" "o_endColor ?p = o_endColor po"
    "o_startSize ?p = o_startSize po" "o_endSize ?p = o_endSize po"
    "\<And>a b. o_color po = Some (ColorsRandomizer a b) \<Longrightarrow> o_color ?p = o_color po"
    "\<And>a b. o_size po = Some (MinMaxRandomizer a b) \<Longrightarrow> o_size ?p = o_size po"
    by (auto simp: set_flags_def replace_constants_def Let_def
          split: option.splits num_src.splits col_src.splits)
  have "\<exists>msg. validate ?p = Inl (Error msg)"
    using assms(2) f(8,9) unfolding validate_def defined_def f(1-7)
    by auto
  then show ?thesis
    by (auto simp: ParticlesSystem_new_def assms(1) sum_bind_def Let_def)
qed

text \<open>
  C1, at the inputs where the code departs from it. A constant size given as a plain
  number is moved to \<open>globalSize\<close> and deleted before the checks run, and a constant
  colour given as a colour object is moved to \<open>globalColor\<close>; the check for a constant
  next to a start value then finds no constant, and the constructor returns a system.
\<close>

theorem plain_constants_pass_validation:
  "(\<exists>s. ParticlesSystem_new size_clash_options still = Inr s \<and>
        o_globalSize (s_options s) = Some 5 \<and> o_size (s_options s) = None \<and>
        o_startSize (s_options s) = Some (Num 1) \<and> o_endSize (s_options s) = Some (Num 2)) \<and>
   (\<exists>s. ParticlesSystem_new color_clash_options still = Inr s \<and>
        o_globalColor (s_options s) = Some (Color 1 0 0) \<and> o_color (s_options s) = None \<and>
        o_startColor (s_options s) = Some (Col (Color 0 1 0)) \<and>
        o_endColor (s_options s) = Some (Col (Color 0 0 1)))"
  by (simp add: new_eval size_clash_options_def color_clash_options_def)

section \<open>Runs without hooks never raise\<close>

text \<open>
  Without hooks on the particles, a particle writes only to the attributes its options
  switched on, and the constructor allocated exactly those: no setter raises, so every
  update and every spawn of a constructed system returns.
\<close>

lemma reset_triple_cases:
  assumes "reset_triple flag c st en g = Inr ((a, b, d), g')"
  shows "(a = None \<and> b = None \<or> flag) \<and> (b = None \<or> d \<noteq> None)"
  using assms by (auto simp: reset_triple_def split: if_splits option.splits prod.splits)

lemma reset_colors_cases:
  assumes "reset_colors options g = ((a, b, d), g')"
  shows "(a = None \<and> b = None \<or> o_colorize options) \<and> (b = None \<or> d \<noteq> None)"
  using assms by (auto simp: reset_colors_def split: if_splits prod.splits)

lemma reset_rotation_cases:
  assumes "reset_rotation options g = ((a, b), g')"
  shows "(a = None \<and> b = None) \<or> o_rotating options"
  using assms by (auto simp: reset_rotation_def split: if_splits prod.splits)

lemma reset_fits:
  assumes "Particle_reset options g = Inr (p, g')" "o_onSpawn options = None"
  shows "fits options p"
proof -
  obtain v0 g1 where 1: "getConstOrRandomVector (o_velocity options) False g = (v0, g1)" by force
  obtain a g2 where 2: "getConstOrRandomVector (o_acceleration options) True g1 = (a, g2)" by force
  obtain po g3 where 3: "getConstOrRandomVector (o_offset options) False g2 = (po, g3)" by force
  obtain t g4 where 4: "getRandomWithSpread (opt_or (o_ttl options) 1) (o_ttlExtra options) g3 = (t, g4)"
    by force
  from assms(1) obtain al sa ea g5 where 5: "reset_triple (o_fade options) (o_alpha options) (o_startAlpha options)
                  (o_endAlpha options) g4 = Inr ((al, sa, ea), g5)"
    by (auto simp: Particle_reset_def 1 2 3 4 sum_bind_def Let_def split: sum.splits)
  obtain c sc ec g6 where 6: "reset_colors options g5 = ((c, sc, ec), g6)" by (metis surj_pair)
  from assms(1) obtain sz ss es g7 where 7: "reset_triple (o_scaling options) (o_size options) (o_startSize options)
                  (o_endSize options) g6 = Inr ((sz, ss, es), g7)"
    by (auto simp: Particle_reset_def 1 2 3 4 5 6 sum_bind_def Let_def split: sum.splits)
  obtain ro rs g8 where 8: "reset_rotation options g7 = ((ro, rs), g8)" by (metis surj_pair)
  have p: "p_alpha p = al" "p_startAlpha p = sa" "p_color p = c" "p_startColor p = sc"
    "p_endColor p = ec" "p_size p = sz" "p_startSize p = ss" "p_rotation p = ro"
    "p_rotationSpeed p = rs"
    using assms by (auto simp: Particle_reset_def 1 2 3 4 5 6 7 8 sum_bind_def Let_def run_hook_def)
  show ?thesis
    using reset_triple_cases[OF 5] reset_colors_cases[OF 6] reset_triple_cases[OF 7]
      reset_rotation_cases[OF 8]
    unfolding fits_def lerp_safe_def p
    by (auto simp: opt_truthy_def)
qed


lemma fitsD:
  assumes "fits options p"
  shows "lerp_safe p"
    "p_alpha p = None \<and> p_startAlpha p = None \<or> o_fade options"
    "p_color p = None \<and> p_startColor p = None \<or> o_colorize options"
    "p_size p = None \<and> p_startSize p = None \<or> o_scaling options"
    "p_rotation p = None \<and> \<not> opt_truthy (p_rotationSpeed p) \<or> o_rotating options"
  using assms unfolding fits_def by blast+

lemma first_update_permitted:
  assumes "fits options p"
  shows "list_all (permitted options) (first_update i p)"
proof -
  note f = fitsD[OF assms]
  have a: "list_all (permitted options)
     (if p_alpha p \<noteq> None \<or> p_startAlpha p \<noteq> None
      then [SetAlpha i (opt_or_opt (p_alpha p) (p_startAlpha p))] else [])"
    using f(2) by (auto simp: permitted_def)
  have c: "list_all (permitted options)
     (if p_color p \<noteq> None \<or> p_startColor p \<noteq> None
      then [SetColor i (case p_color p of Some c \<Rightarrow> Some c | None \<Rightarrow> p_startColor p)]
      else [])"
    using f(3) by (auto simp: permitted_def split: option.splits)
  have s: "list_all (permitted options)
     (if p_size p \<noteq> None \<or> p_startSize p \<noteq> None
      then [SetSize i (opt_or_opt (p_size p) (p_startSize p))] else [])"
    using f(4) by (auto simp: permitted_def)
  have r: "list_all (permitted options)
     (case p_rotation p of None \<Rightarrow> [] | Some r \<Rightarrow> [SetRotation i r])"
    using f(5) by (auto simp: permitted_def split: option.splits)
  show ?thesis unfolding first_update_def using a c s r by simp
qed

lemma animate_permitted:
  assumes "fits options p" "animate i p = Inr w"
  shows "list_all (permitted options) w"
proof -
  note f = fitsD[OF assms(1)]
  let ?alpha = "(if p_startAlpha p \<noteq> None \<and> p_age p \<ge> p_startAlphaChangeAt p
           then [SetAlpha i
                  (Some (lerp (ToNumber (p_startAlpha p)) (ToNumber (p_endAlpha p))
                           (change_factor (p_age p) (p_startAlphaChangeAt p))))]
           else [])"
  let ?size = "(if p_startSize p \<noteq> None \<and> p_age p \<ge> p_startSizeChangeAt p
           then [SetSize i
                  (Some (lerp (ToNumber (p_startSize p)) (ToNumber (p_endSize p))
                           (change_factor (p_age p) (p_startSizeChangeAt p))))]
           else [])"
  let ?color = "(case p_startColor p of
          None \<Rightarrow> Inr []
        | Some sc \<Rightarrow>
           if p_age p \<ge> p_startColorChangeAt p then
             (case p_endColor p of
                None \<Rightarrow> Inl TypeError
              | Some ec \<Rightarrow>
                 Inr [SetColor i
                       (Some (lerpColors sc ec (change_factor (p_age p) (p_startColorChangeAt p))))])
           else Inr [])"
  from assms(2) obtain wc where wc: "?color = Inr wc" and w: "w = wc @ ?alpha @ ?size"
    unfolding animate_def sum_bind_def by (auto split: sum.splits)
  have c: "list_all (permitted options) wc"
    using wc f(3) by (auto simp: permitted_def split: option.splits if_splits)
  have a: "list_all (permitted options) ?alpha"
    using f(2) by (auto simp: permitted_def)
  have s: "list_all (permitted options) ?size"
    using f(4) by (auto simp: permitted_def)
  show ?thesis unfolding w using c a s by simp
qed

lemma rotate_permitted:
  assumes "fits options p"
  shows "list_all (permitted options) (snd (rotate i dt p))"
  using fitsD(5)[OF assms] by (auto simp: rotate_def permitted_def Let_def)

lemma start_update_permitted:
  assumes "fits options p" "start_update opts wp i p = Inr (p1, w1)"
  shows "list_all (permitted options) w1 \<and> fits options p1"
proof -
  have "fits options p1"
    using assms(1) unfolding start_update_shape[OF assms(2)] fits_def lerp_safe_def by simp
  moreover have "list_all (permitted options) w1"
    using assms first_update_permitted[OF assms(1), of i] animate_permitted[OF assms(1), of i]
    by (auto simp: start_update_def sum_bind_def split: if_splits sum.splits)
  ultimately show ?thesis by simp
qed

lemma update_fits:
  assumes "Particle_update opts wp i dt p = Inr (p', w)" "o_onUpdate opts = None"
    "fits options p"
  shows "fits options p' \<and> list_all (permitted options) w"
proof (cases "p_finished p")
  case True
  then show ?thesis using assms by (simp add: Particle_update_def)
next
  case False
  from False assms(1) obtain p1 w1 where s: "start_update opts wp i p = Inr (p1, w1)"
    and p': "p' = check_done (run_hook (o_onUpdate opts) (advance_age dt
            (integrate_velocity dt (integrate_position dt (fst (rotate i dt p1))))))"
    and w: "w = w1 @ snd (rotate i dt p1) @
          [SetPosition i (positionToSet wp (integrate_position dt (fst (rotate i dt p1))))]"
    by (rule Particle_update_unfold)
  note st = start_update_permitted[OF assms(3) s]
  have f1: "fits options p1" using st by simp
  have fields: "p_alpha p' = p_alpha p1" "p_startAlpha p' = p_startAlpha p1"
    "p_color p' = p_color p1" "p_startColor p' = p_startColor p1" "p_endColor p' = p_endColor p1"
    "p_size p' = p_size p1" "p_startSize p' = p_startSize p1"
    "p_rotationSpeed p' = p_rotationSpeed p1"
    "p_rotation p' = (if opt_truthy (p_rotationSpeed p1)
       then Some (ToNumber (p_rotation p1) + ToNumber (p_rotationSpeed p1) * dt)
       else p_rotation p1)"
    unfolding p' assms(2) run_hook_def check_done_def advance_age_def
      integrate_velocity_shape integrate_position_shape rotate_shape
    by simp_all
  have "fits options p'"
    using f1 unfolding fits_def lerp_safe_def fields by (cases "opt_truthy (p_rotationSpeed p1)") simp_all
  moreover have "list_all (permitted options) w"
    using st rotate_permitted[OF f1, of i dt] unfolding w by (simp add: permitted_def)
  ultimately show ?thesis by simp
qed

lemma apply_write_permitted:
  assumes "allocated s" "permitted (s_options s) w"
  shows "\<exists>s1. apply_write w s = Inr s1 \<and> allocated s1 \<and> s_options s1 = s_options s \<and>
     s_aliveParticles s1 = s_aliveParticles s \<and> s_deadParticles s1 = s_deadParticles s"
proof (cases w)
  case (SetAlpha i v)
  then obtain a where "s_alphas s = Some a"
    using assms by (auto simp: permitted_def allocated_def)
  then show ?thesis using assms(1) SetAlpha by (simp add: setAlpha_def allocated_def)
next
  case (SetColor i c)
  then obtain a col where "s_colors s = Some a" "c = Some col"
    using assms by (auto simp: permitted_def allocated_def)
  then show ?thesis using assms(1) SetColor by (simp add: setColor_def allocated_def)
next
  case (SetSize i v)
  then obtain a where "s_sizes s = Some a"
    using assms by (auto simp: permitted_def allocated_def)
  then show ?thesis using assms(1) SetSize by (simp add: setSize_def allocated_def)
next
  case (SetRotation i v)
  then obtain a where "s_rotations s = Some a"
    using assms by (auto simp: permitted_def allocated_def)
  then show ?thesis using assms(1) SetRotation by (simp add: setRotation_def allocated_def)
next
  case (SetPosition i v)
  then show ?thesis using assms(1) by (simp add: setPosition_def allocated_def)
qed

lemma apply_writes_permitted:
  "allocated s \<Longrightarrow> list_all (permitted (s_options s)) ws \<Longrightarrow>
   \<exists>s'. apply_writes ws s = Inr s' \<and> allocated s' \<and> s_options s' = s_options s \<and>
     s_aliveParticles s' = s_aliveParticles s \<and> s_deadParticles s' = s_deadParticles s"
proof (induction ws arbitrary: s)
  case Nil
  then show ?case by simp
next
  case (Cons w ws)
  from Cons.prems obtain s1 where 1: "apply_write w s = Inr s1" "allocated s1"
     "s_options s1 = s_options s"
     "s_aliveParticles s1 = s_aliveParticles s" "s_deadParticles s1 = s_deadParticles s"
    using apply_write_permitted[of s w] by auto
  from Cons.IH[of s1] 1 Cons.prems(2)
  show ?case by (auto simp: sum_bind_def)
qed

lemma provisionedD:
  assumes "provisioned s"
  shows "allocated s" "reset_safe (s_options s)" "o_onUpdate (s_options s) = None"
    "o_onSpawn (s_options s) = None" "list_all (fits (s_options s)) (s_aliveParticles s)"
    "list_all (fits (s_options s)) (s_deadParticles s)"
  using assms unfolding provisioned_def by blast+

lemma provisionedI:
  assumes "allocated s" "reset_safe (s_options s)" "o_onUpdate (s_options s) = None"
    "o_onSpawn (s_options s) = None" "list_all (fits (s_options s)) (s_aliveParticles s)"
    "list_all (fits (s_options s)) (s_deadParticles s)"
  shows "provisioned s"
  using assms unfolding provisioned_def by blast

lemma update_particles_total:
  "provisioned s \<Longrightarrow> n \<le> length (s_aliveParticles s) \<Longrightarrow>
   \<exists>s'. update_particles wp dt n s = Inr s' \<and> provisioned s'"
proof (induction n arbitrary: s)
  case 0
  then show ?case by simp
next
  case (Suc i)
  note pr = provisionedD[OF Suc.prems(1)]
  have i: "i < length (s_aliveParticles s)" using Suc.prems(2) by simp
  let ?p = "s_aliveParticles s ! i"
  have fp: "fits (s_options s) ?p" using pr(5) i by (simp add: list_all_length)
  obtain p' w where u: "Particle_update (s_options s) wp i dt ?p = Inr (p', w)"
    using Particle_update_total[OF fitsD(1)[OF fp]] by blast
  note uf = update_fits[OF u pr(3) fp]
  obtain s1 where s1: "apply_writes w s = Inr s1" "allocated s1" "s_options s1 = s_options s"
     "s_aliveParticles s1 = s_aliveParticles s" "s_deadParticles s1 = s_deadParticles s"
    using apply_writes_permitted[OF pr(1), of w] uf by auto
  let ?s2 = "(if p_finished p' then
                   s1\<lparr>s_aliveParticles :=
                         take i (s_aliveParticles s1) @ drop (Suc i) (s_aliveParticles s1),
                      s_deadParticles := s_deadParticles s1 @ [p']\<rparr>
                 else s1\<lparr>s_aliveParticles := (s_aliveParticles s1)[i := p']\<rparr>)"
  have al: "list_all (fits (s_options s)) (take i (s_aliveParticles s) @ drop (Suc i) (s_aliveParticles s))"
    using pr(5) by (auto simp: list_all_iff dest: in_set_takeD in_set_dropD)
  have al2: "list_all (fits (s_options s)) ((s_aliveParticles s)[i := p'])"
    using pr(5) uf by (auto simp: list_all_iff dest: set_update_subset_insert[THEN subsetD])
  have p2: "provisioned ?s2"
    by (rule provisionedI)
       (use s1 pr uf al al2 in \<open>auto simp: allocated_def\<close>)
  have l2: "i \<le> length (s_aliveParticles ?s2)" using i s1(4) by auto
  from Suc.IH[OF p2 l2] obtain s' where "update_particles wp dt i ?s2 = Inr s'" "provisioned s'"
    by blast
  then show ?case using i u s1(1) by (auto simp: sum_bind_def)
qed

lemma spawn_loop_total:
  "provisioned s \<Longrightarrow> \<exists>s'. spawn_loop quantity i s = Inr s' \<and> provisioned s'"
proof (induction quantity i s rule: spawn_loop.induct)
  case (1 quantity i s)
  note pr = provisionedD[OF "1.prems"]
  show ?case
  proof (cases "real i < quantity \<and> s_deadParticles s \<noteq> []")
    case False
    then show ?thesis using "1.prems" by (auto simp: spawn_loop.simps[of quantity i s])
  next
    case True
    obtain p g where r: "Particle_reset (s_options s) (s_random s) = Inr (p, g)"
      using Particle_reset_total[OF pr(2)] by blast
    let ?s1 = "s\<lparr>s_deadParticles := butlast (s_deadParticles s),
                    s_aliveParticles := s_aliveParticles s @ [p],
                    s_random := g\<rparr>"
    have d: "list_all (fits (s_options s)) (butlast (s_deadParticles s))"
      using pr(6) by (auto simp: list_all_iff dest: in_set_butlastD)
    have p1: "provisioned ?s1"
      by (rule provisionedI)
         (use pr d reset_fits[OF r pr(4)] in \<open>auto simp: allocated_def\<close>)
    from "1.IH"[OF conjunct1[OF True] conjunct2[OF True] r refl p1]
    show ?thesis using True r by (simp add: spawn_loop.simps[of quantity i s])
  qed
qed

lemma provisioned_random: "provisioned s \<Longrightarrow> provisioned (s\<lparr>s_random := g\<rparr>)"
  by (simp add: provisioned_def allocated_def)

lemma update_emitters_total:
  "provisioned s \<Longrightarrow> \<exists>es' s'. update_emitters dt es s = Inr (es', s') \<and> provisioned s'"
proof (induction es arbitrary: s)
  case Nil
  then show ?case by simp
next
  case (Cons e es)
  obtain toSpawn e' g where u: "Emitter_update dt (s_ttl s) e (s_random s) = (toSpawn, e', g)"
    by (metis prod_cases3)
  obtain s1 where 1: "(if truthy toSpawn then spawnParticles toSpawn (s\<lparr>s_random := g\<rparr>)
         else Inr (s\<lparr>s_random := g\<rparr>)) = Inr s1" "provisioned s1"
  proof (cases "truthy toSpawn")
    case True
    obtain s1 where "spawn_loop toSpawn 0 (s\<lparr>s_random := g\<rparr>) = Inr s1" "provisioned s1"
      using spawn_loop_total[OF provisioned_random[OF Cons.prems, of g], of toSpawn 0] by blast
    then show ?thesis using that[of s1] True by (simp add: spawnParticles_def)
  next
    case False
    then show ?thesis using that[of "s\<lparr>s_random := g\<rparr>"]
      provisioned_random[OF Cons.prems, of g] by simp
  qed
  from Cons.IH[OF 1(2)] obtain es1 s' where "update_emitters dt es s1 = Inr (es1, s')"
    "provisioned s'" by blast
  then show ?case using u 1(1) by (simp add: sum_bind_def)
qed

lemma System_update_total:
  assumes "provisioned s"
  shows "\<exists>s'. System_update no_hooks world dt s = Inr s' \<and> provisioned s'"
proof (cases "dt = 0")
  case True
  then show ?thesis using assms by (simp add: System_update_def)
next
  case False
  define s1 where "s1 = (case s_ttl s of None \<Rightarrow> s
      | Some t \<Rightarrow> if t > 0 then s\<lparr>s_ttl := Some (t - dt)\<rparr> else s)"
  define deltaTime where "deltaTime = dt * s_speed s1"
  define s2 where "s2 = s1\<lparr>s_dt := Some deltaTime, s_age := s_age s1 + deltaTime\<rparr>"
  define s3 where "s3 = (case s_boundObject s2 of None \<Rightarrow> s2 | Some pos \<Rightarrow> s2\<lparr>s_position := pos\<rparr>)"
  have p3: "provisioned s3"
    using assms
    by (simp add: s3_def s2_def s1_def provisioned_def allocated_def split: option.splits)
  obtain s4 where 4: "(if \<not> ttlExpired s3 then
                sum_bind (update_emitters deltaTime (s_emitters s3) s3)
                  (\<lambda>(es, s). Inr (s\<lparr>s_emitters := es\<rparr>))
              else Inr s3) = Inr s4" and p4: "provisioned s4"
  proof (cases "ttlExpired s3")
    case True
    then show ?thesis using that p3 by simp
  next
    case False
    obtain es s4' where e: "update_emitters deltaTime (s_emitters s3) s3 = Inr (es, s4')"
      "provisioned s4'"
      using update_emitters_total[OF p3] by blast
    have "provisioned (s4'\<lparr>s_emitters := es\<rparr>)"
      using e(2) by (simp add: provisioned_def allocated_def)
    then show ?thesis using that[of "s4'\<lparr>s_emitters := es\<rparr>"] False e(1)
      by (simp add: sum_bind_def)
  qed
  obtain s5 where 5: "update_particles (world (s_position s4)) deltaTime
                   (length (s_aliveParticles s4)) s4 = Inr s5" and p5: "provisioned s5"
    using update_particles_total[OF p4 le_refl] by blast
  define s7 where "s7 = update_bounding_sphere deltaTime (flush_dirty
      (if length (s_aliveParticles s3) \<noteq> length (s_aliveParticles s5)
                             then s5\<lparr>s_drawRange := length (s_aliveParticles s5)\<rparr> else s5))"
  have p7: "provisioned s7"
    using p5
    by (simp add: s7_def update_bounding_sphere_def flush_dirty_def provisioned_def
          allocated_def Let_def)
  have "System_update no_hooks world dt s = Inr s7"
    using False 4 5
    unfolding System_update_def s1_def[symmetric] Let_def deltaTime_def[symmetric]
      s2_def[symmetric] s3_def[symmetric]
    by (simp add: sum_bind_def s7_def no_hooks_def run_hook_def)
  then show ?thesis using p7 by simp
qed

lemma make_particles_fits:
  "make_particles options n g = Inr (ps, g') \<Longrightarrow> o_onSpawn options = None \<Longrightarrow>
     list_all (fits options) ps"
proof (induction n arbitrary: g ps)
  case 0
  then show ?case by simp
next
  case (Suc n)
  from Suc.prems(1) obtain p g1 ps1 where r: "Particle_reset options g = Inr (p, g1)"
    and m: "make_particles options n g1 = Inr (ps1, g')" and ps: "ps = p # ps1"
    by (auto simp: sum_bind_def split: sum.splits)
  show ?case using Suc.IH[OF m Suc.prems(2)] reset_fits[OF r Suc.prems(2)] ps by simp
qed

lemma new_provisioned:
  assumes "ParticlesSystem_new options g = Inr s"
    "o_onUpdate (s_options s) = None" "o_onSpawn (s_options s) = None"
  shows "provisioned s"
proof -
  define po where "po = set_flags (replace_constants (case opt_particles options of
                         None \<Rightarrow> default_particle_options | Some po \<Rightarrow> po))"
  from assms(1) obtain dead g' where
    o: "s_options s = po" and d: "make_particles po (particleCount (case opt_system options of
                        None \<Rightarrow> default_system_options | Some so \<Rightarrow> so)) g = Inr (dead, g')"
    and f: "s_aliveParticles s = []" "s_deadParticles s = dead"
      "s_alphas s \<noteq> None \<or> \<not> o_fade po" "s_colors s \<noteq> None \<or> \<not> o_colorize po"
      "s_sizes s \<noteq> None \<or> \<not> o_scaling po" "s_rotations s \<noteq> None \<or> \<not> o_rotating po"
    unfolding ParticlesSystem_new_def po_def[symmetric] Let_def sum_bind_def
    by (auto split: sum.splits)
  show ?thesis
    by (rule provisionedI)
       (use o f assms(2,3) new_reset_safe[OF assms(1)] make_particles_fits[OF d] in
          \<open>auto simp: allocated_def\<close>)
qed

lemma perform_total:
  assumes "provisioned s"
  shows "\<exists>s'. perform no_hooks c s = Inr s' \<and> provisioned s'"
proof (cases c)
  case (Update world dt)
  then show ?thesis using System_update_total[OF assms] by simp
next
  case (Spawn quantity)
  then show ?thesis using spawn_loop_total[OF assms, of quantity 0] by (simp add: spawnParticles_def)
qed

lemma System_run_complete:
  "provisioned s \<Longrightarrow> length (System_run no_hooks ops s) = Suc (length ops)"
proof (induction ops arbitrary: s)
  case Nil
  then show ?case by simp
next
  case (Cons c cs)
  obtain s' where "perform no_hooks c s = Inr s'" "provisioned s'"
    using perform_total[OF Cons.prems] by blast
  then show ?case using Cons.IH[of s'] by simp
qed

lemma hook_free_run_is_complete:
  assumes "ParticlesSystem_new options g = Inr s0"
    "o_onUpdate (s_options s0) = None" "o_onSpawn (s_options s0) = None"
  shows "length (System_run no_hooks ops s0) = Suc (length ops)"
  using System_run_complete[OF new_provisioned[OF assms]] .


end
